theory Spec2Isabelle
  imports Main "HOL-Library.Word" "HOL-Library.Sublist"
begin

unbundle bit_operations_syntax

section \<open>gitcache: the fetch/archive engine of common.go\<close>

text \<open>
  A shallow embedding of \<^verbatim>\<open>common.go\<close> (package gitcache). Go strings are byte
  sequences, so both \<^verbatim>\<open>string\<close> and \<^verbatim>\<open>[]byte\<close> are \<open>char list\<close>. A Go
  \<^verbatim>\<open>error\<close> result is an \<open>error option\<close> (\<open>None\<close> is \<^verbatim>\<open>nil\<close>), a
  \<^verbatim>\<open>(string, error)\<close> result is \<open>error + string\<close>. Everything the code does to
  the outside (log lines, subprocesses, the file system, the output streams) is explicit:
  each function takes the world and returns the world it leaves behind.
\<close>

type_synonym bytes = string

subsection \<open>Errors\<close>

datatype errno = ENOENT | EACCES | ENOTDIR | ENOSPC | EIO | EPIPE | EMFILE | EBADF

datatype error =
    ErrorString string              \<comment> \<open>\<^verbatim>\<open>errors.New(text)\<close>\<close>
  | PathError string string errno   \<comment> \<open>\<^verbatim>\<open>*os.PathError{Op, Path, Err}\<close>\<close>
  | SyscallError errno              \<comment> \<open>a failed read or write on a descriptor\<close>
  | ExitError int                   \<comment> \<open>\<^verbatim>\<open>*exec.ExitError\<close>: the subprocess exited with this status\<close>
  | ExecError string                \<comment> \<open>\<^verbatim>\<open>*exec.Error\<close>: the program could not be started\<close>
  | EOF                             \<comment> \<open>\<^verbatim>\<open>io.EOF\<close>\<close>
  | ErrUnexpectedEOF                \<comment> \<open>\<^verbatim>\<open>io.ErrUnexpectedEOF\<close>\<close>
  | ErrShortWrite                   \<comment> \<open>\<^verbatim>\<open>io.ErrShortWrite\<close>\<close>
  | ErrHeader                       \<comment> \<open>\<^verbatim>\<open>tar.ErrHeader\<close>\<close>
  | ErrWriteTooLong                 \<comment> \<open>\<^verbatim>\<open>tar.ErrWriteTooLong\<close>\<close>
  | ErrWriteAfterClose              \<comment> \<open>\<^verbatim>\<open>tar.ErrWriteAfterClose\<close>\<close>
  | ErrMissedWriting nat            \<comment> \<open>archive/tar: missed writing n bytes\<close>

definition errors_New :: "string \<Rightarrow> error" where
  "errors_New text = ErrorString text"

definition os_IsNotExist :: "error \<Rightarrow> bool" where
  "os_IsNotExist err = (case err of PathError _ _ ENOENT \<Rightarrow> True | _ \<Rightarrow> False)"

subsection \<open>Strings and paths (Go standard library)\<close>

text \<open>\<^verbatim>\<open>strings.Join(elems, sep)\<close>.\<close>

fun strings_Join :: "string list \<Rightarrow> string \<Rightarrow> string" where
  "strings_Join [] sep = []"
| "strings_Join [x] sep = x"
| "strings_Join (x # y # ys) sep = x @ sep @ strings_Join (y # ys) sep"

text \<open>
  \<^verbatim>\<open>strings.TrimSpace\<close> removes leading and trailing white space as Unicode defines it:
  the six ASCII characters below and the code points U+0085, U+00A0, U+1680,
  U+2000..U+200A, U+2028, U+2029, U+202F, U+205F and U+3000, here in their UTF-8 encoding.
\<close>

definition asciiSpace :: "char \<Rightarrow> bool" where
  "asciiSpace c = (c \<in> set [CHR 0x09, CHR 0x0A, CHR 0x0B, CHR 0x0C, CHR 0x0D, CHR 0x20])"

definition unicodeSpaces :: "string list" where
  "unicodeSpaces =
     [[CHR 0xC2, CHR 0x85], [CHR 0xC2, CHR 0xA0], [CHR 0xE1, CHR 0x9A, CHR 0x80],
      [CHR 0xE2, CHR 0x80, CHR 0x80], [CHR 0xE2, CHR 0x80, CHR 0x81],
      [CHR 0xE2, CHR 0x80, CHR 0x82], [CHR 0xE2, CHR 0x80, CHR 0x83],
      [CHR 0xE2, CHR 0x80, CHR 0x84], [CHR 0xE2, CHR 0x80, CHR 0x85],
      [CHR 0xE2, CHR 0x80, CHR 0x86], [CHR 0xE2, CHR 0x80, CHR 0x87],
      [CHR 0xE2, CHR 0x80, CHR 0x88], [CHR 0xE2, CHR 0x80, CHR 0x89],
      [CHR 0xE2, CHR 0x80, CHR 0x8A], [CHR 0xE2, CHR 0x80, CHR 0xA8],
      [CHR 0xE2, CHR 0x80, CHR 0xA9], [CHR 0xE2, CHR 0x80, CHR 0xAF],
      [CHR 0xE2, CHR 0x81, CHR 0x9F], [CHR 0xE3, CHR 0x80, CHR 0x80]]"

text \<open>
  The number of bytes of the white-space rune that \<open>s\<close> starts with, 0 when it starts
  with none; \<open>pats\<close> are the multi-byte encodings to look for.
\<close>

definition spaceWidth :: "string list \<Rightarrow> string \<Rightarrow> nat" where
  "spaceWidth pats s =
     (case s of
        [] \<Rightarrow> 0
      | c # cs \<Rightarrow>
          if asciiSpace c then 1
          else (case filter (\<lambda>p. take (length p) s = p) pats of
                  [] \<Rightarrow> 0
                | p # _ \<Rightarrow> length p))"

fun trimFront :: "string list \<Rightarrow> string \<Rightarrow> string" where
  "trimFront pats [] = []"
| "trimFront pats (c # cs) =
     (case spaceWidth pats (c # cs) of
        0 \<Rightarrow> c # cs
      | Suc n \<Rightarrow> trimFront pats (drop n cs))"

definition strings_TrimSpace :: "string \<Rightarrow> string" where
  "strings_TrimSpace s =
     rev (trimFront (map rev unicodeSpaces) (rev (trimFront unicodeSpaces s)))"

text \<open>
  \<^verbatim>\<open>path.Clean\<close>, by path elements: empty elements and \<^verbatim>\<open>.\<close> are dropped, \<^verbatim>\<open>..\<close>
  removes the element before it, is dropped at the root and is kept at the start of a
  relative path. The stack holds the elements kept so far, the last one first.
\<close>

fun splitSlash :: "string \<Rightarrow> string \<Rightarrow> string list" where
  "splitSlash acc [] = [rev acc]"
| "splitSlash acc (c # cs) =
     (if c = CHR ''/'' then rev acc # splitSlash [] cs else splitSlash (c # acc) cs)"

definition cleanStep :: "bool \<Rightarrow> string list \<Rightarrow> string \<Rightarrow> string list" where
  "cleanStep rooted stack el =
     (if el = [] \<or> el = ''.'' then stack
      else if el = ''..'' then
        (case stack of
           [] \<Rightarrow> if rooted then [] else [''..'']
         | el0 # below \<Rightarrow> if el0 = ''..'' then ''..'' # stack else below)
      else el # stack)"

definition path_Clean :: "string \<Rightarrow> string" where
  "path_Clean p =
     (if p = [] then ''.''
      else
        (let rooted = (hd p = CHR ''/'');
             kept = rev (foldl (cleanStep rooted) [] (splitSlash [] p))
         in if rooted then CHR ''/'' # strings_Join kept ''/''
            else if kept = [] then ''.''
            else strings_Join kept ''/''))"

text \<open>
  \<^verbatim>\<open>path.Join\<close> (and \<^verbatim>\<open>filepath.Join\<close>, the same function where the separator is
  \<^verbatim>\<open>/\<close>): leading empty elements are ignored, the rest is joined with slashes and
  cleaned; the result is empty when every element is.
\<close>

definition path_Join :: "string list \<Rightarrow> string" where
  "path_Join elem =
     (case dropWhile (\<lambda>e. e = []) elem of
        [] \<Rightarrow> []
      | es \<Rightarrow> path_Clean (strings_Join es ''/''))"

subsection \<open>SHA-256 and hexadecimal encoding (Go standard library)\<close>

text \<open>
  \<^verbatim>\<open>sha256.Sum256\<close> computes the SHA-256 digest of FIPS 180-4; the 32-byte array it
  returns is the list of the digest's bytes. The 64 round constants are given in
  decimal: the first is \<^verbatim>\<open>0x428a2f98\<close>, the last \<^verbatim>\<open>0xc67178f2\<close>.
\<close>

type_synonym u32 = "32 word"

definition rotr :: "nat \<Rightarrow> u32 \<Rightarrow> u32" where
  "rotr n x = (drop_bit n x) OR (push_bit (32 - n) x)"

definition Ch :: "u32 \<Rightarrow> u32 \<Rightarrow> u32 \<Rightarrow> u32" where
  "Ch x y z = (x AND y) XOR (NOT x AND z)"

definition Maj :: "u32 \<Rightarrow> u32 \<Rightarrow> u32 \<Rightarrow> u32" where
  "Maj x y z = (x AND y) XOR (x AND z) XOR (y AND z)"

definition bsig0 :: "u32 \<Rightarrow> u32" where
  "bsig0 x = rotr 2 x XOR rotr 13 x XOR rotr 22 x"

definition bsig1 :: "u32 \<Rightarrow> u32" where
  "bsig1 x = rotr 6 x XOR rotr 11 x XOR rotr 25 x"

definition ssig0 :: "u32 \<Rightarrow> u32" where
  "ssig0 x = rotr 7 x XOR rotr 18 x XOR drop_bit 3 x"

definition ssig1 :: "u32 \<Rightarrow> u32" where
  "ssig1 x = rotr 17 x XOR rotr 19 x XOR drop_bit 10 x"

definition sha256_K :: "u32 list" where
  "sha256_K =
   [1116352408, 1899447441, 3049323471, 3921009573, 961987163, 1508970993,
    2453635748, 2870763221, 3624381080, 310598401, 607225278, 1426881987,
    1925078388, 2162078206, 2614888103, 3248222580, 3835390401, 4022224774,
    264347078, 604807628, 770255983, 1249150122, 1555081692, 1996064986,
    2554220882, 2821834349, 2952996808, 3210313671, 3336571891, 3584528711,
    113926993, 338241895, 666307205, 773529912, 1294757372, 1396182291,
    1695183700, 1986661051, 2177026350, 2456956037, 2730485921, 2820302411,
    3259730800, 3345764771, 3516065817, 3600352804, 4094571909, 275423344,
    430227734, 506948616, 659060556, 883997877, 958139571, 1322822218,
    1537002063, 1747873779, 1955562222, 2024104815, 2227730452, 2361852424,
    2428436474, 2756734187, 3204031479, 3329325298]"

type_synonym sha_state = "u32 \<times> u32 \<times> u32 \<times> u32 \<times> u32 \<times> u32 \<times> u32 \<times> u32"

definition sha256_init :: sha_state where
  "sha256_init = (0x6a09e667, 0xbb67ae85, 0x3c6ef372, 0xa54ff53a,
                  0x510e527f, 0x9b05688c, 0x1f83d9ab, 0x5be0cd19)"

definition byte_word :: "char \<Rightarrow> u32" where
  "byte_word c = of_nat (of_char c)"

fun be32 :: "bytes \<Rightarrow> u32" where
  "be32 (a # b # c # d # _) =
     push_bit 24 (byte_word a) OR push_bit 16 (byte_word b) OR push_bit 8 (byte_word c) OR byte_word d"
| "be32 _ = 0"

fun words_of :: "nat \<Rightarrow> bytes \<Rightarrow> u32 list" where
  "words_of 0 bs = []"
| "words_of (Suc n) bs = be32 bs # words_of n (drop 4 bs)"

fun schedule :: "nat \<Rightarrow> u32 list \<Rightarrow> u32 list" where
  "schedule 0 ws = ws"
| "schedule (Suc n) ws =
     (let t = length ws
      in schedule n (ws @ [ssig1 (ws ! (t - 2)) + ws ! (t - 7) + ssig0 (ws ! (t - 15)) + ws ! (t - 16)]))"

definition sha_round :: "sha_state \<Rightarrow> u32 \<times> u32 \<Rightarrow> sha_state" where
  "sha_round s kw =
     (case s of (a, b, c, d, e, f, g, h) \<Rightarrow>
        (let t1 = h + bsig1 e + Ch e f g + fst kw + snd kw;
             t2 = bsig0 a + Maj a b c
         in (t1 + t2, a, b, c, d + t1, e, f, g)))"

definition sha_block :: "sha_state \<Rightarrow> bytes \<Rightarrow> sha_state" where
  "sha_block s blk =
     (case s of (a, b, c, d, e, f, g, h) \<Rightarrow>
        (case foldl sha_round s (zip sha256_K (schedule 48 (words_of 16 blk))) of
           (a', b', c', d', e', f', g', h') \<Rightarrow>
             (a + a', b + b', c + c', d + d', e + e', f + f', g + g', h + h')))"

definition word_byte :: "nat \<Rightarrow> 'a::len word \<Rightarrow> char" where
  "word_byte i w = char_of (unat (drop_bit (8 * i) w AND 0xff))"

definition word_bytes :: "u32 \<Rightarrow> bytes" where
  "word_bytes w = [word_byte 3 w, word_byte 2 w, word_byte 1 w, word_byte 0 w]"

definition len_bytes :: "64 word \<Rightarrow> bytes" where
  "len_bytes w = map (\<lambda>i. word_byte i w) [7, 6, 5, 4, 3, 2, 1, 0]"

definition sha_pad :: "bytes \<Rightarrow> bytes" where
  "sha_pad m =
     m @ [CHR 0x80] @ replicate ((119 - length m mod 64) mod 64) (CHR 0x00)
       @ len_bytes (of_nat (8 * length m))"

fun sha_blocks :: "nat \<Rightarrow> sha_state \<Rightarrow> bytes \<Rightarrow> sha_state" where
  "sha_blocks 0 s bs = s"
| "sha_blocks (Suc n) s bs = sha_blocks n (sha_block s (take 64 bs)) (drop 64 bs)"

definition sha256_Sum256 :: "bytes \<Rightarrow> bytes" where
  "sha256_Sum256 m =
     (let p = sha_pad m
      in case sha_blocks (length p div 64) sha256_init p of
           (a, b, c, d, e, f, g, h) \<Rightarrow>
             word_bytes a @ word_bytes b @ word_bytes c @ word_bytes d @
             word_bytes e @ word_bytes f @ word_bytes g @ word_bytes h)"

text \<open>\<^verbatim>\<open>hex.EncodeToString\<close>: two characters of \<^verbatim>\<open>hextable\<close> for every byte.\<close>

definition hextable :: string where
  "hextable = ''0123456789abcdef''"

definition hex_EncodeToString :: "bytes \<Rightarrow> string" where
  "hex_EncodeToString src =
     concat (map (\<lambda>c. [hextable ! (of_char c div 16), hextable ! (of_char c mod 16)]) src)"

text \<open>
  The cache key of a repository, lines 125 and 126 of \<^verbatim>\<open>preflightAndInit\<close>:
  \<^verbatim>\<open>hash := sha256.Sum256([]byte(repo))\<close> and \<^verbatim>\<open>hex.EncodeToString(hash[:])\<close>.
\<close>

definition cacheKey :: "string \<Rightarrow> string" where
  "cacheKey repo = hex_EncodeToString (sha256_Sum256 repo)"

subsection \<open>The world outside the program\<close>

text \<open>
  The trace lists, in order, what the program asked of the operating system: the lines
  \<^verbatim>\<open>makeCommand\<close> logs, the subprocesses it starts (with their argument vector), and
  the file-system calls.
\<close>

datatype event =
    LogPrintln string         \<comment> \<open>\<^verbatim>\<open>log.Println\<close> in \<^verbatim>\<open>makeCommand\<close>\<close>
  | Exec "string list"        \<comment> \<open>a subprocess started by \<^verbatim>\<open>Run\<close>, \<^verbatim>\<open>Output\<close> or \<^verbatim>\<open>Start\<close>\<close>
  | Stat string               \<comment> \<open>\<^verbatim>\<open>os.Stat(path)\<close>\<close>
  | MkdirAll string nat       \<comment> \<open>\<^verbatim>\<open>os.MkdirAll(path, perm)\<close>\<close>
  | Create string             \<comment> \<open>\<^verbatim>\<open>os.Create(path)\<close>\<close>
  | Close string              \<comment> \<open>\<^verbatim>\<open>f.Close()\<close> of the file created at this path\<close>

text \<open>
  An \<^verbatim>\<open>io.Writer\<close> that ends in a stream or a file: the bytes it has accepted, and
  how many more it accepts before a write fails (\<open>None\<close>: it never fails).
\<close>

record sink =
  sk_data :: bytes
  sk_room :: "nat option"

definition sink_Write :: "bytes \<Rightarrow> sink \<Rightarrow> (nat \<times> error option) \<times> sink" where
  "sink_Write b s =
     (case sk_room s of
        None \<Rightarrow> ((length b, None), s\<lparr>sk_data := sk_data s @ b\<rparr>)
      | Some k \<Rightarrow>
          if length b \<le> k
          then ((length b, None), s\<lparr>sk_data := sk_data s @ b, sk_room := Some (k - length b)\<rparr>)
          else ((k, Some (SyscallError ENOSPC)),
                s\<lparr>sk_data := sk_data s @ take k b, sk_room := Some 0\<rparr>))"

text \<open>The state of a \<^verbatim>\<open>gzip.Writer\<close>: the chunks written to it, its sticky error, closed or not.\<close>

record gzip_writer =
  gz_seen :: "bytes list"
  gz_err :: "error option"
  gz_closed :: bool

text \<open>
  What the program writes to: the stream the caller supplied (\<^verbatim>\<open>ourOutput\<close>), the
  process's standard output (\<^verbatim>\<open>os.Stdout\<close>), the files it created, and the
  \<^verbatim>\<open>gzip.Writer\<close> of the request.
\<close>

record outputs =
  ourOutput :: sink
  os_Stdout :: bytes
  files :: "string \<Rightarrow> sink option"
  gzipper :: gzip_writer

record world =
  trace :: "event list"
  outs :: outputs

definition emit :: "event \<Rightarrow> world \<Rightarrow> world" where
  "emit ev w = w\<lparr>trace := trace w @ [ev]\<rparr>"

subsection \<open>Tar headers and the archive subprocess\<close>

text \<open>\<^verbatim>\<open>time.Time\<close> as seconds and nanoseconds since the epoch; \<^verbatim>\<open>time.Unix(sec, nsec)\<close>.\<close>

datatype time = Time int int

definition time_Unix :: "int \<Rightarrow> int \<Rightarrow> time" where
  "time_Unix sec nsec = Time (sec + nsec div 1000000000) (nsec mod 1000000000)"

text \<open>The fields of \<^verbatim>\<open>tar.Header\<close>.\<close>

record tar_header =
  Typeflag :: char
  Name :: string
  Linkname :: string
  Size :: int
  Mode :: int
  Uid :: int
  Gid :: int
  Uname :: string
  Gname :: string
  ModTime :: time
  AccessTime :: time
  ChangeTime :: time

text \<open>
  What \<^verbatim>\<open>tar.NewReader(pipeTar)\<close> delivers: each call of \<^verbatim>\<open>tarIn.Next()\<close> gives
  either an error (\<open>EOF\<close> at the end of the archive) or a header, followed by the
  bytes the reader has for that entry and the error it reports when they run out
  before \<^verbatim>\<open>header.Size\<close> bytes were read (\<open>ErrUnexpectedEOF\<close> for a truncated stream).
\<close>

datatype tar_input =
    NextErr error
  | NextHdr tar_header bytes error tar_input

text \<open>
  The \<^verbatim>\<open>git archive\<close> subprocess as \<^verbatim>\<open>sendDownstream\<close> sees it: the results of
  \<^verbatim>\<open>cmd.StdoutPipe()\<close>, \<^verbatim>\<open>cmd.Start()\<close> and \<^verbatim>\<open>cmd.Wait()\<close>, and its standard
  output as the tar reader decodes it.
\<close>

record proc =
  pipe_err :: "error option"
  start_err :: "error option"
  tar_stream :: tar_input
  wait_err :: "error option"

text \<open>
  The environment answers every call from the history of the calls made so far (the
  trace) and the call's arguments. \<open>tar_encode\<close> is the header block(s)
  \<^verbatim>\<open>tar.Writer\<close> emits for a header, or its refusal to encode it; \<open>gzip_write\<close> and
  \<open>gzip_close\<close> are the compressed bytes a \<^verbatim>\<open>gzip.Writer\<close> passes on when a chunk
  is written after the chunks seen so far, and when it is closed. \<open>os_Create\<close> gives
  the room of the file it creates.
\<close>

record env =
  os_Stat :: "event list \<Rightarrow> string \<Rightarrow> error option"
  os_MkdirAll :: "event list \<Rightarrow> string \<Rightarrow> nat \<Rightarrow> error option"
  os_Create :: "event list \<Rightarrow> string \<Rightarrow> error + nat option"
  cmd_Run :: "event list \<Rightarrow> string list \<Rightarrow> error option"
  cmd_Output :: "event list \<Rightarrow> string list \<Rightarrow> bytes \<times> error option"
  cmd_Pipe :: "event list \<Rightarrow> string list \<Rightarrow> proc"
  tar_encode :: "tar_header \<Rightarrow> error + bytes"
  gzip_write :: "bytes list \<Rightarrow> bytes \<Rightarrow> bytes"
  gzip_close :: "bytes list \<Rightarrow> bytes"

subsection \<open>Writers (Go standard library)\<close>

datatype target = OurOutput | FileW string

datatype writer = Plain target | Gzipped target

definition target_Write :: "target \<Rightarrow> bytes \<Rightarrow> outputs \<Rightarrow> (nat \<times> error option) \<times> outputs" where
  "target_Write t b out =
     (case t of
        OurOutput \<Rightarrow>
          (case sink_Write b (ourOutput out) of (r, s) \<Rightarrow> (r, out\<lparr>ourOutput := s\<rparr>))
      | FileW p \<Rightarrow>
          (case files out p of
             None \<Rightarrow> ((0, Some (PathError ''write'' p EBADF)), out)
           | Some s0 \<Rightarrow>
               (case sink_Write b s0 of (r, s) \<Rightarrow> (r, out\<lparr>files := (files out)(p \<mapsto> s)\<rparr>))))"

text \<open>
  \<^verbatim>\<open>gzip.Writer.Write\<close>: refused once an error has stuck; otherwise the compressed
  bytes go to the writer below, and a failure there sticks.
\<close>

definition gzip_Write :: "env \<Rightarrow> target \<Rightarrow> bytes \<Rightarrow> outputs \<Rightarrow> (nat \<times> error option) \<times> outputs" where
  "gzip_Write env t p out =
     (let z = gzipper out
      in case gz_err z of
           Some e \<Rightarrow> ((0, Some e), out)
         | None \<Rightarrow>
             (case target_Write t (gzip_write env (gz_seen z) p) out of
                ((n, ew), out') \<Rightarrow>
                  ((if ew = None then length p else 0, ew),
                   out'\<lparr>gzipper := z\<lparr>gz_seen := gz_seen z @ [p], gz_err := ew\<rparr>\<rparr>)))"

text \<open>\<^verbatim>\<open>gzip.Writer.Close\<close>: flushes the compressor and writes the trailer, once.\<close>

definition gzip_Close :: "env \<Rightarrow> target \<Rightarrow> outputs \<Rightarrow> error option \<times> outputs" where
  "gzip_Close env t out =
     (let z = gzipper out
      in case gz_err z of
           Some e \<Rightarrow> (Some e, out)
         | None \<Rightarrow>
             if gz_closed z then (None, out)
             else (case target_Write t (gzip_close env (gz_seen z)) out of
                     ((n, ew), out') \<Rightarrow>
                       (ew, out'\<lparr>gzipper := z\<lparr>gz_closed := True, gz_err := ew\<rparr>\<rparr>)))"

definition writer_Write :: "env \<Rightarrow> writer \<Rightarrow> bytes \<Rightarrow> outputs \<Rightarrow> (nat \<times> error option) \<times> outputs" where
  "writer_Write env wr b out =
     (case wr of
        Plain t \<Rightarrow> target_Write t b out
      | Gzipped t \<Rightarrow> gzip_Write env t b out)"

text \<open>
  \<^verbatim>\<open>tar.Writer\<close>: the writer below it, the bytes of the current entry still to be
  written, the padding owed after them, and the sticky error.
\<close>

record tar_writer =
  tw_out :: writer
  tw_nb :: nat
  tw_pad :: nat
  tw_err :: "error option"

definition tar_NewWriter :: "writer \<Rightarrow> tar_writer" where
  "tar_NewWriter wr = \<lparr>tw_out = wr, tw_nb = 0, tw_pad = 0, tw_err = None\<rparr>"

definition blockPadding :: "nat \<Rightarrow> nat" where
  "blockPadding n = (512 - n mod 512) mod 512"

definition isHeaderOnlyType :: "char \<Rightarrow> bool" where
  "isHeaderOnlyType flag = (flag \<in> set ''123456'')"

text \<open>
  \<^verbatim>\<open>Flush\<close> fails when the current entry is not fully written, and otherwise writes
  the padding that completes its last block.
\<close>

definition tar_Flush :: "env \<Rightarrow> tar_writer \<Rightarrow> outputs \<Rightarrow> error option \<times> tar_writer \<times> outputs" where
  "tar_Flush env tw out =
     (case tw_err tw of
        Some e \<Rightarrow> (Some e, tw, out)
      | None \<Rightarrow>
          if tw_nb tw > 0 then (Some (ErrMissedWriting (tw_nb tw)), tw, out)
          else (case writer_Write env (tw_out tw) (replicate (tw_pad tw) (CHR 0x00)) out of
                  ((n, Some e), out') \<Rightarrow> (Some e, tw\<lparr>tw_err := Some e\<rparr>, out')
                | ((n, None), out') \<Rightarrow> (None, tw\<lparr>tw_pad := 0\<rparr>, out')))"

text \<open>
  \<^verbatim>\<open>WriteHeader\<close> flushes the entry before, writes the encoded header and expects
  \<^verbatim>\<open>Size\<close> bytes of content (none for the header-only types). A header that cannot
  be encoded is refused without harm to the writer; a failed write sticks.
\<close>

definition tar_WriteHeader ::
  "env \<Rightarrow> tar_header \<Rightarrow> tar_writer \<Rightarrow> outputs \<Rightarrow> error option \<times> tar_writer \<times> outputs" where
  "tar_WriteHeader env hdr tw out =
     (case tar_Flush env tw out of
        (Some e, tw1, out1) \<Rightarrow> (Some e, tw1, out1)
      | (None, tw1, out1) \<Rightarrow>
          (case tar_encode env hdr of
             Inl e \<Rightarrow> (Some e, tw1, out1)
           | Inr blk \<Rightarrow>
               (case writer_Write env (tw_out tw1) blk out1 of
                  ((n, Some e), out2) \<Rightarrow> (Some e, tw1\<lparr>tw_err := Some e\<rparr>, out2)
                | ((n, None), out2) \<Rightarrow>
                    (let size = (if isHeaderOnlyType (Typeflag hdr) then 0 else nat (Size hdr))
                     in (None, tw1\<lparr>tw_nb := size, tw_pad := blockPadding size\<rparr>, out2)))))"

text \<open>
  \<^verbatim>\<open>Write\<close> passes on at most the bytes the current entry still expects, and reports
  \<open>ErrWriteTooLong\<close> when it was given more.
\<close>

definition tar_Write ::
  "env \<Rightarrow> bytes \<Rightarrow> tar_writer \<Rightarrow> outputs \<Rightarrow> (nat \<times> error option) \<times> tar_writer \<times> outputs" where
  "tar_Write env b tw out =
     (case tw_err tw of
        Some e \<Rightarrow> ((0, Some e), tw, out)
      | None \<Rightarrow>
          (let overwrite = (length b > tw_nb tw);
               b' = take (tw_nb tw) b
           in if b' = [] then ((0, if overwrite then Some ErrWriteTooLong else None), tw, out)
              else (case writer_Write env (tw_out tw) b' out of
                      ((n, Some e), out') \<Rightarrow>
                        ((n, Some e), tw\<lparr>tw_nb := tw_nb tw - n, tw_err := Some e\<rparr>, out')
                    | ((n, None), out') \<Rightarrow>
                        ((n, if overwrite then Some ErrWriteTooLong else None),
                         tw\<lparr>tw_nb := tw_nb tw - n\<rparr>, out'))))"

text \<open>
  \<^verbatim>\<open>Close\<close> flushes and writes the end-of-archive trailer, two blocks of zeros;
  nothing is written when the writer has failed or an entry is incomplete.
\<close>

definition tar_trailer :: bytes where
  "tar_trailer = replicate 1024 (CHR 0x00)"

definition tar_Close :: "env \<Rightarrow> tar_writer \<Rightarrow> outputs \<Rightarrow> error option \<times> tar_writer \<times> outputs" where
  "tar_Close env tw out =
     (if tw_err tw = Some ErrWriteAfterClose then (None, tw, out)
      else (case tar_Flush env tw out of
              (Some e, tw1, out1) \<Rightarrow> (Some e, tw1, out1)
            | (None, tw1, out1) \<Rightarrow>
                (case writer_Write env (tw_out tw1) tar_trailer out1 of
                   ((n, ew), out2) \<Rightarrow> (ew, tw1\<lparr>tw_err := Some ErrWriteAfterClose\<rparr>, out2))))"

text \<open>
  \<^verbatim>\<open>io.CopyN(tarOut, tarIn, n)\<close> is \<^verbatim>\<open>io.Copy(tarOut, io.LimitReader(tarIn, n))\<close>
  followed by a check of the count. The limited reader delivers at most \<open>n\<close> of the
  entry's bytes (none when \<open>n \<le> 0\<close>) and then ends; when the entry has fewer, the
  reader's own error ends the copy. \<^verbatim>\<open>io.Copy\<close> writes what it read, stops at a failed or
  short write, and does not report \<open>EOF\<close> as an error. The library moves the bytes
  in chunks through a buffer; here they go in one read and one write.
\<close>

definition io_Copy ::
  "env \<Rightarrow> bytes \<Rightarrow> error \<Rightarrow> int \<Rightarrow> tar_writer \<Rightarrow> outputs \<Rightarrow>
   (int \<times> error option) \<times> tar_writer \<times> outputs" where
  "io_Copy env dat rerr n tw out =
     (let d = (if n \<le> 0 then [] else take (nat n) dat);
          er = (if n \<le> int (length dat) then EOF else rerr)
      in if d = [] then ((0, if er = EOF then None else Some er), tw, out)
         else (case tar_Write env d tw out of
                 ((nw, Some ew), tw', out') \<Rightarrow> ((int nw, Some ew), tw', out')
               | ((nw, None), tw', out') \<Rightarrow>
                   if nw \<noteq> length d then ((int nw, Some ErrShortWrite), tw', out')
                   else ((int nw, if er = EOF then None else Some er), tw', out')))"

definition io_CopyN ::
  "env \<Rightarrow> bytes \<Rightarrow> error \<Rightarrow> int \<Rightarrow> tar_writer \<Rightarrow> outputs \<Rightarrow>
   (int \<times> error option) \<times> tar_writer \<times> outputs" where
  "io_CopyN env dat rerr n tw out =
     (case io_Copy env dat rerr n tw out of
        ((written, err), tw', out') \<Rightarrow>
          if written = n then ((n, None), tw', out')
          else if written < n \<and> err = None then ((written, Some EOF), tw', out')
          else ((written, err), tw', out'))"

subsection \<open>The program: common.go\<close>

text \<open>
  \<^verbatim>\<open>makeCommand\<close> logs the command line and builds the command, here its argument
  vector. \<open>cmd_run\<close> and \<open>cmd_output\<close> are \<^verbatim>\<open>(*exec.Cmd).Run\<close> and
  \<^verbatim>\<open>(*exec.Cmd).Output\<close>: the subprocess is started and waited for.
\<close>

definition makeCommand :: "string \<Rightarrow> string list \<Rightarrow> world \<Rightarrow> string list \<times> world" where
  "makeCommand cmd args w =
     (cmd # args, emit (LogPrintln (cmd @ '' '' @ strings_Join args '' '')) w)"

definition cmd_run :: "env \<Rightarrow> string list \<Rightarrow> world \<Rightarrow> error option \<times> world" where
  "cmd_run env argv w = (cmd_Run env (trace w) argv, emit (Exec argv) w)"

definition cmd_output :: "env \<Rightarrow> string list \<Rightarrow> world \<Rightarrow> (bytes \<times> error option) \<times> world" where
  "cmd_output env argv w = (cmd_Output env (trace w) argv, emit (Exec argv) w)"

definition fetchUpstream :: "env \<Rightarrow> string \<Rightarrow> string \<Rightarrow> string \<Rightarrow> world \<Rightarrow> error option \<times> world" where
  "fetchUpstream env gd repo branch w =
     (case makeCommand ''git'' [''--git-dir'', gd, ''fetch'', repo, ''+'' @ branch @ '':'' @ branch] w of
        (cmd, w1) \<Rightarrow> cmd_run env cmd w1)"

text \<open>
  The loop of \<^verbatim>\<open>sendDownstream\<close> (lines 63 to 91), by recursion on what the tar
  reader delivers; \<open>wait\<close> is the result \<^verbatim>\<open>cmd.Wait()\<close> will give.
\<close>

fun copyEntries ::
  "env \<Rightarrow> tar_input \<Rightarrow> error option \<Rightarrow> tar_writer \<Rightarrow> outputs \<Rightarrow>
   error option \<times> tar_writer \<times> outputs" where
  "copyEntries env (NextErr err) wait tarOut out =
     (if err = EOF then (wait, tarOut, out) else (Some err, tarOut, out))"
| "copyEntries env (NextHdr hdr dat rerr rest) wait tarOut out =
     (let header = hdr\<lparr>ModTime := time_Unix 0 0\<rparr>
      in case tar_WriteHeader env header tarOut out of
           (Some err, tarOut1, out1) \<Rightarrow> (Some err, tarOut1, out1)
         | (None, tarOut1, out1) \<Rightarrow>
             (case io_CopyN env dat rerr (Size header) tarOut1 out1 of
                ((written, Some err), tarOut2, out2) \<Rightarrow> (Some err, tarOut2, out2)
              | ((written, None), tarOut2, out2) \<Rightarrow>
                  if written \<noteq> Size header then (None, tarOut2, out2)
                  else copyEntries env rest wait tarOut2 out2))"

text \<open>
  \<^verbatim>\<open>sendDownstream\<close>. The deferred \<^verbatim>\<open>tarOut.Close()\<close> runs on every return after
  the writer was made. The Go code drops what it returns; \<open>sendDownstreamC\<close> keeps it
  beside the function's result (\<open>None\<close> when the writer was never made), and
  \<open>sendDownstream\<close> is the function as the program sees it.
\<close>

definition sendDownstreamC ::
  "env \<Rightarrow> string \<Rightarrow> string \<Rightarrow> string \<Rightarrow> writer \<Rightarrow> world \<Rightarrow>
   (error option \<times> error option option) \<times> world" where
  "sendDownstreamC env gd commit tree out w =
     (case makeCommand ''git'' [''--git-dir'', gd, ''archive'', ''--format'', ''tar'', commit @ '':'' @ tree] w of
        (cmd, w1) \<Rightarrow>
          (let p = cmd_Pipe env (trace w1) cmd
           in case pipe_err p of
                Some err \<Rightarrow> ((Some err, None), w1)
              | None \<Rightarrow>
                  (let w2 = emit (Exec cmd) w1
                   in case start_err p of
                        Some err \<Rightarrow> ((Some err, None), w2)
                      | None \<Rightarrow>
                          (case copyEntries env (tar_stream p) (wait_err p) (tar_NewWriter out) (outs w2) of
                             (r, tarOut, out1) \<Rightarrow>
                               (case tar_Close env tarOut out1 of
                                  (closed, _, out2) \<Rightarrow> ((r, Some closed), w2\<lparr>outs := out2\<rparr>))))))"

definition sendDownstream ::
  "env \<Rightarrow> string \<Rightarrow> string \<Rightarrow> string \<Rightarrow> writer \<Rightarrow> world \<Rightarrow> error option \<times> world" where
  "sendDownstream env gd commit tree out w =
     (case sendDownstreamC env gd commit tree out w of ((r, closed), w') \<Rightarrow> (r, w'))"

definition getHeadCommit ::
  "env \<Rightarrow> string \<Rightarrow> string \<Rightarrow> string \<Rightarrow> world \<Rightarrow> (error + string) \<times> world" where
  "getHeadCommit env gd repo branch w =
     (case fetchUpstream env gd repo branch w of
        (Some err, w1) \<Rightarrow> (Inl err, w1)
      | (None, w1) \<Rightarrow>
          (case makeCommand ''git'' [''--git-dir'', gd, ''rev-parse'', branch] w1 of
             (cmd, w2) \<Rightarrow>
               (case cmd_output env cmd w2 of
                  ((commitHex, Some err), w3) \<Rightarrow> (Inl err, w3)
                | ((commitHex, None), w3) \<Rightarrow> (Inr (strings_TrimSpace commitHex), w3))))"

text \<open>\<^verbatim>\<open>preflightAndInit\<close>; the permission \<^verbatim>\<open>0755\<close> is 493.\<close>

definition preflightAndInit ::
  "env \<Rightarrow> string \<Rightarrow> string \<Rightarrow> string \<Rightarrow> string \<Rightarrow> world \<Rightarrow> (error + string) \<times> world" where
  "preflightAndInit env repo branch format cacheDir w =
     (if length repo = 0 then (Inl (errors_New ''Must specify repo''), w)
      else if length branch = 0 then
        (Inl (errors_New ''Must specify branch, even if you know the commit (we may need it to fetch)''), w)
      else if length format = 0 then (Inl (errors_New ''Must specify format, e.g. tgz''), w)
      else if format \<noteq> ''tar'' \<and> format \<noteq> ''tgz'' then
        (Inl (errors_New ''Format must be tar or tgz for now''), w)
      else
        (let gd = path_Join [cacheDir, cacheKey repo];
             w1 = emit (Stat gd) w
         in case os_Stat env (trace w) gd of
              None \<Rightarrow> (Inr gd, w1)
            | Some err \<Rightarrow>
                if os_IsNotExist err then
                  (let w2 = emit (MkdirAll gd 493) w1
                   in case os_MkdirAll env (trace w1) gd 493 of
                        Some err \<Rightarrow> (Inl err, w2)
                      | None \<Rightarrow>
                          (case makeCommand ''git'' [''--git-dir'', gd, ''init'', ''--bare''] w2 of
                             (cmd, w3) \<Rightarrow>
                               (case cmd_run env cmd w3 of
                                  (Some err, w4) \<Rightarrow> (Inl err, w4)
                                | (None, w4) \<Rightarrow> (Inr gd, w4))))
                else (Inl err, w1)))"

text \<open>
  \<^verbatim>\<open>FetchLatest\<close>, in the four steps that follow \<^verbatim>\<open>preflightAndInit\<close>. Lines 153 to
  161: the commit to serve and \<^verbatim>\<open>haveFetched\<close>.
\<close>

definition resolveCommit ::
  "env \<Rightarrow> string \<Rightarrow> string \<Rightarrow> string \<Rightarrow> string \<Rightarrow> world \<Rightarrow> (error + string \<times> bool) \<times> world" where
  "resolveCommit env gd repo branch commit w =
     (if length commit = 0 then
        (case getHeadCommit env gd repo branch w of
           (Inl err, w1) \<Rightarrow> (Inl err, w1)
         | (Inr c, w1) \<Rightarrow> (Inr (c, True), w1))
      else (Inr (commit, False), w))"

text \<open>
  Lines 163 to 175: the writer the archive goes to. With an output directory the path
  of the file is written to \<^verbatim>\<open>os.Stdout\<close> and the file is created.
\<close>

definition openSink ::
  "env \<Rightarrow> string \<Rightarrow> string \<Rightarrow> string \<Rightarrow> world \<Rightarrow> (error + target) \<times> world" where
  "openSink env outputDir commit format w =
     (if length outputDir = 0 then (Inr OurOutput, w)
      else
        (let fpath = path_Join [outputDir, commit @ ''.'' @ format];
             w1 = w\<lparr>outs := (outs w)\<lparr>os_Stdout := os_Stdout (outs w) @ fpath\<rparr>\<rparr>;
             w2 = emit (Create fpath) w1
         in case os_Create env (trace w1) fpath of
              Inl err \<Rightarrow> (Inl err, w2)
            | Inr room \<Rightarrow>
                (Inr (FileW fpath),
                 w2\<lparr>outs := (outs w2)\<lparr>files := (files (outs w2))(fpath \<mapsto> \<lparr>sk_data = [], sk_room = room\<rparr>)\<rparr>\<rparr>)))"

text \<open>Lines 177 to 182: \<^verbatim>\<open>gzip.NewWriter(w)\<close> in front of the writer when the format is tgz.\<close>

definition gzip_NewWriter :: gzip_writer where
  "gzip_NewWriter = \<lparr>gz_seen = [], gz_err = None, gz_closed = False\<rparr>"

definition wrapFormat :: "string \<Rightarrow> target \<Rightarrow> world \<Rightarrow> writer \<times> world" where
  "wrapFormat format t w =
     (if format = ''tgz'' then (Gzipped t, w\<lparr>outs := (outs w)\<lparr>gzipper := gzip_NewWriter\<rparr>\<rparr>)
      else (Plain t, w))"

text \<open>Lines 184 to 200: the optimistic attempt, and one fetch and one more attempt.\<close>

definition archiveWithRetry ::
  "env \<Rightarrow> string \<Rightarrow> string \<Rightarrow> string \<Rightarrow> string \<Rightarrow> string \<Rightarrow> bool \<Rightarrow> writer \<Rightarrow> world \<Rightarrow>
   error option \<times> world" where
  "archiveWithRetry env gd repo branch commit tree haveFetched wr w =
     (case sendDownstream env gd commit tree wr w of
        (None, w1) \<Rightarrow> (None, w1)
      | (Some err, w1) \<Rightarrow>
          if haveFetched then (Some err, w1)
          else (case fetchUpstream env gd repo branch w1 of
                  (Some err, w2) \<Rightarrow> (Some err, w2)
                | (None, w2) \<Rightarrow> sendDownstream env gd commit tree wr w2))"

text \<open>
  The deferred calls of \<^verbatim>\<open>FetchLatest\<close>, last registered first:
  \<^verbatim>\<open>gzipper.Close()\<close>, then \<^verbatim>\<open>f.Close()\<close>.
\<close>

definition runDeferred :: "env \<Rightarrow> writer \<Rightarrow> world \<Rightarrow> world" where
  "runDeferred env wr w =
     (let (t, w1) = (case wr of
                       Plain t \<Rightarrow> (t, w)
                     | Gzipped t \<Rightarrow> (t, w\<lparr>outs := snd (gzip_Close env t (outs w))\<rparr>))
      in case t of
           OurOutput \<Rightarrow> w1
         | FileW fpath \<Rightarrow> emit (Close fpath) w1)"

definition FetchLatest ::
  "env \<Rightarrow> string \<Rightarrow> string \<Rightarrow> string \<Rightarrow> string \<Rightarrow> string \<Rightarrow> string \<Rightarrow> string \<Rightarrow> world \<Rightarrow>
   error option \<times> world" where
  "FetchLatest env repo branch commit tree format cacheDir outputDir w =
     (case preflightAndInit env repo branch format cacheDir w of
        (Inl err, w1) \<Rightarrow> (Some err, w1)
      | (Inr gd, w1) \<Rightarrow>
          (case resolveCommit env gd repo branch commit w1 of
             (Inl err, w2) \<Rightarrow> (Some err, w2)
           | (Inr (commit', haveFetched), w2) \<Rightarrow>
               (case openSink env outputDir commit' format w2 of
                  (Inl err, w3) \<Rightarrow> (Some err, w3)
                | (Inr t, w3) \<Rightarrow>
                    (case wrapFormat format t w3 of
                       (wr, w4) \<Rightarrow>
                         (case archiveWithRetry env gd repo branch commit' tree haveFetched wr w4 of
                            (r, w5) \<Rightarrow> (r, runDeferred env wr w5))))))"

subsection \<open>Reading the trace and the outputs\<close>

text \<open>
  Every subprocess is \<^verbatim>\<open>git --git-dir <dir> <subcommand> ...\<close>; \<open>runs sub tr\<close>
  counts the subprocesses of one git subcommand started in a trace.
\<close>

definition subcommand :: "event \<Rightarrow> string option" where
  "subcommand ev = (case ev of Exec (_ # _ # _ # sub # _) \<Rightarrow> Some sub | _ \<Rightarrow> None)"

definition runs :: "string \<Rightarrow> event list \<Rightarrow> nat" where
  "runs sub tr = length (filter (\<lambda>ev. subcommand ev = Some sub) tr)"

definition creates :: "event list \<Rightarrow> string list" where
  "creates tr = concat (map (\<lambda>ev. case ev of Create p \<Rightarrow> [p] | _ \<Rightarrow> []) tr)"

text \<open>The bytes a target holds.\<close>

definition sink_bytes :: "target \<Rightarrow> outputs \<Rightarrow> bytes" where
  "sink_bytes t out =
     (case t of
        OurOutput \<Rightarrow> sk_data (ourOutput out)
      | FileW p \<Rightarrow> (case files out p of None \<Rightarrow> [] | Some s \<Rightarrow> sk_data s))"

definition target_of :: "writer \<Rightarrow> target" where
  "target_of wr = (case wr of Plain t \<Rightarrow> t | Gzipped t \<Rightarrow> t)"

text \<open>
  \<open>untouched t out out'\<close>: from \<open>out\<close> to \<open>out'\<close> nothing but the target \<open>t\<close> (and
  the compressor in front of it) has changed, and no file has appeared or gone.
\<close>

definition untouched :: "target \<Rightarrow> outputs \<Rightarrow> outputs \<Rightarrow> bool" where
  "untouched t out out' =
     (os_Stdout out' = os_Stdout out \<and>
      (case t of
         OurOutput \<Rightarrow> files out' = files out
       | FileW p \<Rightarrow>
           ourOutput out' = ourOutput out \<and>
           (\<forall>q. q \<noteq> p \<longrightarrow> files out' q = files out q) \<and>
           (files out' p = None \<longleftrightarrow> files out p = None)))"

text \<open>
  \<open>step t out out'\<close>: moreover the bytes \<open>t\<close> held are still there, at the front
  of what it holds now.
\<close>

definition step :: "target \<Rightarrow> outputs \<Rightarrow> outputs \<Rightarrow> bool" where
  "step t out out' = (untouched t out out' \<and> prefix (sink_bytes t out) (sink_bytes t out'))"


text \<open>A tar writer that \<^verbatim>\<open>Close\<close> has not been called on.\<close>

definition open_tw :: "tar_writer \<Rightarrow> bool" where
  "open_tw tw = (tw_err tw \<noteq> Some ErrWriteAfterClose)"

text \<open>
  The subprocess \<^verbatim>\<open>sendDownstream\<close> gets when it is called in the world \<open>w\<close>: the
  environment's answer to the command of line 48, after the line logged for it.
\<close>

definition archiveArgv :: "string \<Rightarrow> string \<Rightarrow> string \<Rightarrow> string list" where
  "archiveArgv gd commit tree =
     [''git'', ''--git-dir'', gd, ''archive'', ''--format'', ''tar'', commit @ '':'' @ tree]"

definition archiveProc :: "env \<Rightarrow> string \<Rightarrow> string \<Rightarrow> string \<Rightarrow> world \<Rightarrow> proc" where
  "archiveProc env gd commit tree w =
     cmd_Pipe env
       (trace w @ [LogPrintln (''git'' @ '' '' @ strings_Join (tl (archiveArgv gd commit tree)) '' '')])
       (archiveArgv gd commit tree)"

text \<open>A tar stream with every modification time set to the epoch.\<close>

fun epochStream :: "tar_input \<Rightarrow> tar_input" where
  "epochStream (NextErr err) = NextErr err"
| "epochStream (NextHdr hdr dat rerr rest) =
     NextHdr (hdr\<lparr>ModTime := time_Unix 0 0\<rparr>) dat rerr (epochStream rest)"

subsection \<open>A small environment to run the program in\<close>

text \<open>
  A fresh cache and an upstream with one commit holding one file. A directory exists
  once it was made; \<^verbatim>\<open>git archive\<close> fails with status 128 and no output until a
  fetch has run, and then delivers the file, stamped with the time \<open>mtime\<close>.
  The header encoding and the compressor are toys that keep the bytes readable.
\<close>

definition demo_hdr :: "time \<Rightarrow> tar_header" where
  "demo_hdr mtime =
     \<lparr>Typeflag = CHR ''0'', Name = ''README'', Linkname = [], Size = 2, Mode = 420,
      Uid = 0, Gid = 0, Uname = ''root'', Gname = ''root'',
      ModTime = mtime, AccessTime = Time 0 0, ChangeTime = Time 0 0\<rparr>"

definition demo_encode :: "tar_header \<Rightarrow> error + bytes" where
  "demo_encode h =
     (if Size h < 0 then Inl ErrHeader
      else Inr (Name h @ (if ModTime h = Time 0 0 then ''@epoch;'' else ''@later;'')))"

definition fetched :: "event list \<Rightarrow> bool" where
  "fetched h = (runs ''fetch'' h > 0)"

definition proc_missing :: proc where
  "proc_missing =
     \<lparr>pipe_err = None, start_err = None, tar_stream = NextErr EOF,
      wait_err = Some (ExitError 128)\<rparr>"

definition proc_ok :: "time \<Rightarrow> proc" where
  "proc_ok mtime =
     \<lparr>pipe_err = None, start_err = None,
      tar_stream = NextHdr (demo_hdr mtime) ''hi'' EOF (NextErr EOF), wait_err = None\<rparr>"

text \<open>A subprocess killed after the header and one of the two bytes of the file.\<close>

definition proc_truncated :: proc where
  "proc_truncated =
     \<lparr>pipe_err = None, start_err = None,
      tar_stream = NextHdr (demo_hdr (Time 7 0)) ''h'' ErrUnexpectedEOF (NextErr ErrUnexpectedEOF),
      wait_err = Some (ExitError 137)\<rparr>"

definition demo_env :: "time \<Rightarrow> env" where
  "demo_env mtime =
     \<lparr>os_Stat = (\<lambda>h p. if MkdirAll p 493 \<in> set h then None
                        else Some (PathError ''stat'' p ENOENT)),
      os_MkdirAll = (\<lambda>h p perm. None),
      os_Create = (\<lambda>h p. Inr None),
      cmd_Run = (\<lambda>h argv. None),
      cmd_Output = (\<lambda>h argv. (''c0ffee'' @ [CHR 0x0A], None)),
      cmd_Pipe = (\<lambda>h argv. if fetched h then proc_ok mtime else proc_missing),
      tar_encode = demo_encode,
      gzip_write = (\<lambda>seen p. p),
      gzip_close = (\<lambda>seen. ''.gz'')\<rparr>"

text \<open>
  The same upstream, already fetched, with a \<^verbatim>\<open>git archive\<close> that stamps the file
  with the time of the call, here the number of calls made before it.
\<close>

definition clock_env :: env where
  "clock_env =
     (demo_env (Time 0 0))\<lparr>cmd_Pipe := (\<lambda>h argv. proc_ok (Time (1500000000 + int (length h)) 0))\<rparr>"

text \<open>The same, with a first \<^verbatim>\<open>git archive\<close> that dies in the middle of the file.\<close>

definition truncating_env :: env where
  "truncating_env =
     (demo_env (Time 7 0))\<lparr>cmd_Pipe := (\<lambda>h argv. if fetched h then proc_ok (Time 7 0)
                                                else proc_truncated)\<rparr>"

definition world0 :: world where
  "world0 =
     \<lparr>trace = [],
      outs = \<lparr>ourOutput = \<lparr>sk_data = [], sk_room = None\<rparr>, os_Stdout = [],
              files = (\<lambda>p. None), gzipper = gzip_NewWriter\<rparr>\<rparr>"

section \<open>Properties\<close>

subsection \<open>Writes only append, and only to their target\<close>

lemma step_refl: "step t out out"
  by (simp add: step_def untouched_def split: target.split)

lemma step_trans: "step t a b \<Longrightarrow> step t b c \<Longrightarrow> step t a c"
  by (auto simp: step_def untouched_def split: target.splits)

lemma step_gzipper: "step t out out' \<Longrightarrow> step t out (out'\<lparr>gzipper := z\<rparr>)"
  by (simp add: step_def untouched_def sink_bytes_def split: target.splits)

lemma sink_Write_data:
  "sink_Write b s = ((n, ew), s') \<Longrightarrow>
   sk_data s' = sk_data s @ take n b \<and> (ew = None \<longrightarrow> n = length b)"
  by (auto simp: sink_Write_def split: option.splits if_splits)

lemma target_Write_bytes:
  assumes "target_Write t b out = ((n, ew), out')"
  shows "sink_bytes t out' = sink_bytes t out @ take n b \<and> (ew = None \<longrightarrow> n = length b)"
proof (cases t)
  case OurOutput
  with assms show ?thesis
    by (auto simp: target_Write_def sink_bytes_def split: prod.splits dest: sink_Write_data)
next
  case (FileW p)
  with assms show ?thesis
    by (auto simp: target_Write_def sink_bytes_def split: prod.splits option.splits
             dest: sink_Write_data)
qed

lemma target_Write_untouched:
  "target_Write t b out = (r, out') \<Longrightarrow> untouched t out out' \<and> gzipper out' = gzipper out"
  by (cases t) (auto simp: target_Write_def untouched_def split: prod.splits option.splits)

lemma target_Write_step:
  assumes "target_Write t b out = (r, out')"
  shows "step t out out'"
proof -
  obtain n ew where r: "r = (n, ew)" by (cases r)
  from target_Write_bytes[OF assms[unfolded r]] have "prefix (sink_bytes t out) (sink_bytes t out')"
    by (simp add: prefix_def)
  with target_Write_untouched[OF assms] show ?thesis by (simp add: step_def)
qed

lemma gzip_Write_step: "gzip_Write env t b out = (r, out') \<Longrightarrow> step t out out'"
  by (auto simp: gzip_Write_def Let_def step_refl split: option.splits prod.splits
           dest!: target_Write_step intro: step_gzipper)


lemma writer_Write_step: "writer_Write env wr b out = (r, out') \<Longrightarrow> step (target_of wr) out out'"
  by (cases wr) (auto simp: writer_Write_def target_of_def dest: target_Write_step gzip_Write_step)

lemma tar_Flush_step:
  "tar_Flush env tw out = (r, tw', out') \<Longrightarrow>
   tw_out tw' = tw_out tw \<and> step (target_of (tw_out tw)) out out'"
  by (auto simp: tar_Flush_def step_refl split: option.splits if_splits prod.splits
           dest: writer_Write_step)

lemma tar_WriteHeader_step:
  "tar_WriteHeader env hdr tw out = (r, tw', out') \<Longrightarrow>
   tw_out tw' = tw_out tw \<and> step (target_of (tw_out tw)) out out'"
  apply (clarsimp simp: tar_WriteHeader_def Let_def split: prod.splits option.splits sum.splits)
     apply (auto dest!: tar_Flush_step writer_Write_step intro: step_trans)
  done

lemma tar_Write_step:
  "tar_Write env b tw out = (r, tw', out') \<Longrightarrow>
   tw_out tw' = tw_out tw \<and> step (target_of (tw_out tw)) out out'"
  by (auto simp: tar_Write_def Let_def step_refl split: option.splits if_splits prod.splits
           dest: writer_Write_step)

lemma tar_Close_step:
  "tar_Close env tw out = (r, tw', out') \<Longrightarrow>
   tw_out tw' = tw_out tw \<and> step (target_of (tw_out tw)) out out'"
  apply (clarsimp simp: tar_Close_def step_refl split: prod.splits option.splits if_splits)
   apply (auto dest!: tar_Flush_step writer_Write_step intro: step_trans)
  done

lemma io_Copy_step:
  "io_Copy env dat rerr n tw out = (r, tw', out') \<Longrightarrow>
   tw_out tw' = tw_out tw \<and> step (target_of (tw_out tw)) out out'"
  by (auto simp: io_Copy_def Let_def step_refl split: option.splits if_splits prod.splits
           dest: tar_Write_step)

lemma io_CopyN_step:
  "io_CopyN env dat rerr n tw out = (r, tw', out') \<Longrightarrow>
   tw_out tw' = tw_out tw \<and> step (target_of (tw_out tw)) out out'"
  by (auto simp: io_CopyN_def split: prod.splits if_splits dest: io_Copy_step)

lemma copyEntries_step:
  "copyEntries env s wait tw out = (r, tw', out') \<Longrightarrow>
   tw_out tw' = tw_out tw \<and> step (target_of (tw_out tw)) out out'"
proof (induction s arbitrary: tw out)
  case (NextErr err)
  then show ?case by (auto simp: step_refl split: if_splits)
next
  case (NextHdr hdr dat rerr rest)
  show ?case
  proof (cases "tar_WriteHeader env (hdr\<lparr>ModTime := time_Unix 0 0\<rparr>) tw out")
    case (fields e1 tw1 out1)
    note h = tar_WriteHeader_step[OF fields]
    show ?thesis
    proof (cases e1)
      case (Some e)
      with NextHdr.prems fields h show ?thesis by (simp add: Let_def)
    next
      case None
      show ?thesis
      proof (cases "io_CopyN env dat rerr (Size hdr) tw1 out1")
        case (fields res tw2 out2)
        note c = io_CopyN_step[OF fields]
        obtain written err where res: "res = (written, err)" by (cases res)
        from h c have hc: "tw_out tw2 = tw_out tw" "step (target_of (tw_out tw)) out out2"
          by (auto intro: step_trans)
        show ?thesis
        proof (cases "err = None \<and> written = Size hdr")
          case True
          with NextHdr.prems \<open>tar_WriteHeader _ _ _ _ = _\<close> None fields res
          have "copyEntries env rest wait tw2 out2 = (r, tw', out')"
            by (simp add: Let_def)
          from NextHdr.IH[OF this] hc show ?thesis by (auto intro: step_trans)
        next
          case False
          with NextHdr.prems \<open>tar_WriteHeader _ _ _ _ = _\<close> None fields res hc
          show ?thesis by (auto simp: Let_def split: option.splits if_splits)
        qed
      qed
    qed
  qed
qed


subsection \<open>What each function adds to the trace\<close>

lemma runs_append: "runs sub (tr @ tr') = runs sub tr + runs sub tr'"
  by (simp add: runs_def)

lemma runs_Nil: "runs sub [] = 0"
  by (simp add: runs_def)

lemma runs_Cons: "runs sub (ev # tr) = (if subcommand ev = Some sub then 1 else 0) + runs sub tr"
  by (simp add: runs_def)

lemma creates_append: "creates (tr @ tr') = creates tr @ creates tr'"
  by (simp add: creates_def)

lemma creates_simps:
  "creates [] = []"
  "creates (LogPrintln l # tr) = creates tr"
  "creates (Exec a # tr) = creates tr"
  "creates (Stat p # tr) = creates tr"
  "creates (MkdirAll p m # tr) = creates tr"
  "creates (Create p # tr) = p # creates tr"
  "creates (Close p # tr) = creates tr"
  by (simp_all add: creates_def)

lemma subcommand_simps:
  "subcommand (LogPrintln l) = None"
  "subcommand (Stat p) = None"
  "subcommand (MkdirAll p m) = None"
  "subcommand (Create p) = None"
  "subcommand (Close p) = None"
  "subcommand (Exec (a # b # c # sub # rest)) = Some sub"
  by (simp_all add: subcommand_def)

lemma fetchUpstream_eq:
  "fetchUpstream env gd repo branch w =
     (cmd_Run env
        (trace w @ [LogPrintln (''git --git-dir '' @ gd @ '' fetch '' @ repo @ '' +'' @ branch @ '':'' @ branch)])
        [''git'', ''--git-dir'', gd, ''fetch'', repo, ''+'' @ branch @ '':'' @ branch],
      w\<lparr>trace := trace w @
          [LogPrintln (''git --git-dir '' @ gd @ '' fetch '' @ repo @ '' +'' @ branch @ '':'' @ branch),
           Exec [''git'', ''--git-dir'', gd, ''fetch'', repo, ''+'' @ branch @ '':'' @ branch]]\<rparr>)"
  by (simp add: fetchUpstream_def makeCommand_def cmd_run_def emit_def)

lemma fetchUpstream_effect:
  assumes "fetchUpstream env gd repo branch w = (r, w')"
  shows "outs w' = outs w" "runs ''fetch'' (trace w') = runs ''fetch'' (trace w) + 1"
    "runs ''archive'' (trace w') = runs ''archive'' (trace w)"
    "creates (trace w') = creates (trace w)"
  using assms
  by (auto simp: fetchUpstream_eq runs_append runs_Cons runs_Nil subcommand_simps
                 creates_append creates_simps)

lemma sendDownstreamC_effect:
  assumes "sendDownstreamC env gd commit tree wr w = (rc, w')"
  shows "step (target_of wr) (outs w) (outs w')"
    "runs ''fetch'' (trace w') = runs ''fetch'' (trace w)"
    "runs ''archive'' (trace w') \<le> runs ''archive'' (trace w) + 1"
    "creates (trace w') = creates (trace w)"
proof -
  let ?log = "LogPrintln (''git'' @ '' '' @
      strings_Join [''--git-dir'', gd, ''archive'', ''--format'', ''tar'', commit @ '':'' @ tree] '' '')"
  let ?argv = "[''git'', ''--git-dir'', gd, ''archive'', ''--format'', ''tar'', commit @ '':'' @ tree]"
  let ?p = "cmd_Pipe env (trace w @ [?log]) ?argv"
  have tr: "trace w' = trace w @ [?log] \<or> trace w' = trace w @ [?log, Exec ?argv]"
    using assms
    by (auto simp: sendDownstreamC_def makeCommand_def emit_def Let_def
             split: option.splits prod.splits)
  from tr show "runs ''fetch'' (trace w') = runs ''fetch'' (trace w)"
    by (auto simp: runs_append runs_Cons runs_Nil subcommand_simps)
  from tr show "runs ''archive'' (trace w') \<le> runs ''archive'' (trace w) + 1"
    by (auto simp: runs_append runs_Cons runs_Nil subcommand_simps)
  from tr show "creates (trace w') = creates (trace w)"
    by (auto simp: creates_append creates_simps)
  show "step (target_of wr) (outs w) (outs w')"
  proof (cases "pipe_err ?p = None \<and> start_err ?p = None")
    case False
    with assms have "outs w' = outs w"
      by (auto simp: sendDownstreamC_def makeCommand_def emit_def Let_def
               split: option.splits prod.splits)
    then show ?thesis by (simp add: step_refl)
  next
    case True
    obtain r tw out1 where ce: "copyEntries env (tar_stream ?p) (wait_err ?p) (tar_NewWriter wr) (outs w) = (r, tw, out1)"
      by (cases "copyEntries env (tar_stream ?p) (wait_err ?p) (tar_NewWriter wr) (outs w)")
    obtain c tw2 out2 where cl: "tar_Close env tw out1 = (c, tw2, out2)"
      by (cases "tar_Close env tw out1")
    from assms True ce cl have o: "outs w' = out2"
      by (auto simp: sendDownstreamC_def makeCommand_def emit_def Let_def)
    from copyEntries_step[OF ce] have 1: "tw_out tw = wr" "step (target_of wr) (outs w) out1"
      by (simp_all add: tar_NewWriter_def)
    from tar_Close_step[OF cl] 1 have "step (target_of wr) out1 out2" by simp
    with 1 o show ?thesis by (auto intro: step_trans)
  qed
qed

lemma sendDownstream_effect:
  assumes "sendDownstream env gd commit tree wr w = (r, w')"
  shows "step (target_of wr) (outs w) (outs w')"
    "runs ''fetch'' (trace w') = runs ''fetch'' (trace w)"
    "runs ''archive'' (trace w') \<le> runs ''archive'' (trace w) + 1"
    "creates (trace w') = creates (trace w)"
proof -
  obtain c where "sendDownstreamC env gd commit tree wr w = ((r, c), w')"
    using assms by (auto simp: sendDownstream_def split: prod.splits)
  from sendDownstreamC_effect[OF this]
  show "step (target_of wr) (outs w) (outs w')"
    "runs ''fetch'' (trace w') = runs ''fetch'' (trace w)"
    "runs ''archive'' (trace w') \<le> runs ''archive'' (trace w) + 1"
    "creates (trace w') = creates (trace w)"
    by simp_all
qed


subsection \<open>The tar writer on a plain target\<close>

lemma writer_Write_plain:
  assumes "writer_Write env (Plain t) b out = ((n, ew), out')"
  shows "sink_bytes t out' = sink_bytes t out @ take n b \<and> n \<le> length b \<and>
         (ew = None \<longrightarrow> n = length b) \<and> ew \<noteq> Some ErrWriteAfterClose \<and>
         (ew \<noteq> None \<longrightarrow> n < length b \<or> n = 0)"
proof -
  from assms have tw: "target_Write t b out = ((n, ew), out')"
    by (simp add: writer_Write_def)
  from tw have "n \<le> length b \<and> ew \<noteq> Some ErrWriteAfterClose \<and> (ew \<noteq> None \<longrightarrow> n < length b \<or> n = 0)"
    by (cases t) (auto simp: target_Write_def sink_Write_def split: prod.splits option.splits if_splits)
  with target_Write_bytes[OF tw] show ?thesis by simp
qed



lemma tar_Write_plain:
  assumes "tw_out tw = Plain t" "tar_Write env b tw out = ((nw, e), tw', out')"
  shows "sink_bytes t out' = sink_bytes t out @ take nw b \<and> nw \<le> length b \<and> nw \<le> tw_nb tw \<and>
    tw_nb tw' = tw_nb tw - nw \<and> (open_tw tw \<longrightarrow> open_tw tw') \<and>
    (e = None \<longrightarrow> tw_err tw' = tw_err tw \<and> nw = length b)"
proof (cases "tw_err tw = None \<and> take (tw_nb tw) b \<noteq> []")
  case False
  with assms show ?thesis
    by (auto simp: tar_Write_def Let_def split: option.splits if_splits)
next
  case True
  obtain n ew out1 where w: "writer_Write env (Plain t) (take (tw_nb tw) b) out = ((n, ew), out1)"
    by (metis prod.exhaust)
  note ww = writer_Write_plain[OF w]
  then have "n \<le> tw_nb tw" by simp
  then have "take n (take (tw_nb tw) b) = take n b" by (simp add: min_def)
  with ww assms True w show ?thesis
    by (auto simp: tar_Write_def Let_def open_tw_def split: option.splits if_splits)
qed

lemma io_Copy_plain:
  assumes "tw_out tw = Plain t" "io_Copy env dat rerr n tw out = ((written, err), tw', out')"
  shows "sink_bytes t out' = sink_bytes t out @ take (nat written) dat \<and>
    0 \<le> written \<and> nat written \<le> length dat \<and> written \<le> max 0 n \<and>
    tw_nb tw' = tw_nb tw - nat written \<and> nat written \<le> tw_nb tw \<and>
    (open_tw tw \<longrightarrow> open_tw tw') \<and> (tw_err tw = None \<and> written = n \<longrightarrow> tw_err tw' = None) \<and>
    (n \<le> 0 \<longrightarrow> tw' = tw)"
proof (cases "n \<le> 0 \<or> take (nat n) dat = []")
  case True
  with assms(2) have "written = 0" "out' = out" "tw' = tw"
    by (auto simp: io_Copy_def Let_def split: if_splits)
  then show ?thesis by simp
next
  case False
  then have npos: "0 < n" and d: "take (nat n) dat \<noteq> []" by auto
  obtain nw e where w: "tar_Write env (take (nat n) dat) tw out = ((nw, e), tw', out')"
    and wr: "written = int nw"
    using assms(2) False
    by (auto simp: io_Copy_def Let_def split: if_splits prod.splits option.splits)
  note tw = tar_Write_plain[OF assms(1) w]
  from tw have le: "nw \<le> nat n" "nw \<le> length dat" by simp_all
  have "tw_err tw = None \<and> written = n \<longrightarrow> tw_err tw' = None"
  proof
    assume a: "tw_err tw = None \<and> written = n"
    show "tw_err tw' = None"
    proof (cases e)
      case None
      with tw a show ?thesis by simp
    next
      case (Some err)
      obtain k ew out1 where ww: "writer_Write env (Plain t) (take (tw_nb tw) (take (nat n) dat)) out = ((k, ew), out1)"
        by (metis prod.exhaust)
      from writer_Write_plain[OF ww] Some w a wr le ww assms(1) have False
        by (auto simp: tar_Write_def Let_def split: option.splits if_splits)
      then show ?thesis ..
    qed
  qed
  with tw le wr npos show ?thesis by (simp add: min_def)
qed

lemma io_CopyN_count:
  "io_CopyN env dat rerr n tw out = ((written, err), tw', out') \<Longrightarrow>
   \<exists>err0. io_Copy env dat rerr n tw out = ((written, err0), tw', out') \<and>
           (written < n \<longrightarrow> err \<noteq> None) \<and> (written = n \<longrightarrow> err = None) \<and>
           (err = None \<longrightarrow> written = n \<or> n < written)"
  by (auto simp: io_CopyN_def split: prod.splits if_splits)


lemma io_CopyN_plain:
  assumes "tw_out tw = Plain t" "io_CopyN env dat rerr n tw out = ((written, err), tw', out')"
  shows "sink_bytes t out' = sink_bytes t out @ take (nat written) dat \<and>
    0 \<le> written \<and> nat written \<le> length dat \<and> written \<le> max 0 n \<and>
    tw_nb tw' = tw_nb tw - nat written \<and> nat written \<le> tw_nb tw \<and>
    (open_tw tw \<longrightarrow> open_tw tw') \<and> (tw_err tw = None \<and> written = n \<longrightarrow> tw_err tw' = None) \<and>
    (written < n \<longrightarrow> err \<noteq> None) \<and> (err = None \<longrightarrow> written = n \<or> n < written) \<and>
    (n \<le> 0 \<longrightarrow> tw' = tw)"
proof -
  from io_CopyN_count[OF assms(2)] obtain err0 where
    c: "io_Copy env dat rerr n tw out = ((written, err0), tw', out')"
    and e: "written < n \<longrightarrow> err \<noteq> None" "err = None \<longrightarrow> written = n \<or> n < written"
    by auto
  from io_Copy_plain[OF assms(1) c] e show ?thesis by simp
qed





subsection \<open>Evaluating the program\<close>

lemmas demo_defs =
  demo_env_def clock_env_def truncating_env_def proc_ok_def proc_missing_def proc_truncated_def
  demo_hdr_def demo_encode_def fetched_def world0_def gzip_NewWriter_def

lemmas run_defs =
  FetchLatest_def preflightAndInit_def resolveCommit_def openSink_def wrapFormat_def
  archiveWithRetry_def runDeferred_def getHeadCommit_def fetchUpstream_def
  sendDownstream_def sendDownstreamC_def makeCommand_def cmd_run_def cmd_output_def emit_def
  errors_New_def os_IsNotExist_def archiveProc_def archiveArgv_def

lemmas io_defs =
  tar_NewWriter_def tar_WriteHeader_def tar_Flush_def tar_Write_def tar_Close_def
  io_Copy_def io_CopyN_def writer_Write_def target_Write_def sink_Write_def
  gzip_Write_def gzip_Close_def blockPadding_def isHeaderOnlyType_def time_Unix_def

lemmas trace_defs = runs_def subcommand_def creates_def

subsection \<open>The cache key\<close>









subsection \<open>Validation and the workspace\<close>

text \<open>
  C3. A request with an empty repo, an empty branch, or a format other than tar and tgz
  is refused with a validation error, and the world is left exactly as it was: no log
  line, no subprocess, no file-system call, nothing written and no file created.
\<close>

theorem validation_precedes_effects:
  assumes "repo = [] \<or> branch = [] \<or> (format \<noteq> ''tar'' \<and> format \<noteq> ''tgz'')"
  shows "\<exists>msg. FetchLatest env repo branch commit tree format cacheDir outputDir w
           = (Some (ErrorString msg), w)"
  using assms by (auto simp: FetchLatest_def preflightAndInit_def errors_New_def)

theorem validation_precedes_effects_witness:
  "(''repo'' = [] \<or> ''main'' = [] \<or> (''zip'' \<noteq> ''tar'' \<and> ''zip'' \<noteq> ''tgz'')) \<and>
   FetchLatest (demo_env (Time 5 0)) ''repo'' ''main'' ''c0ffee'' [] ''zip'' ''/cache'' ''out'' world0
     = (Some (ErrorString ''Format must be tar or tgz for now''), world0)"
  using validation_precedes_effects
    [of "''repo''" "''main''" "''zip''" "demo_env (Time 5 0)" "''c0ffee''" "[]" "''/cache''" "''out''" world0]
  by (simp add: run_defs)

text \<open>
  C10. The workspace directory that \<^verbatim>\<open>preflightAndInit\<close> returns is the cache
  directory joined with the cache key of the repo: two requests with the same cache
  directory and repo get the same directory, whatever their branch and format (commit,
  tree and output are not even passed to it).
\<close>

theorem workspace_depends_on_cacheDir_and_repo:
  assumes "preflightAndInit env1 repo branch1 format1 cacheDir w1 = (Inr gd1, w1')"
      and "preflightAndInit env2 repo branch2 format2 cacheDir w2 = (Inr gd2, w2')"
  shows "gd1 = path_Join [cacheDir, cacheKey repo] \<and> gd2 = gd1"
  using assms
  by (auto simp: preflightAndInit_def Let_def makeCommand_def cmd_run_def
           split: if_splits option.splits prod.splits)


text \<open>
  C4. For a valid request the workspace is the directory \<open>gd\<close>, the cache directory
  joined with the cache key. If \<^verbatim>\<open>os.Stat\<close> finds it, it is returned at once: the
  trace gains the stat and nothing else, so nothing checks that it is a mirror. If the
  stat fails with another error than not-exist, that error is returned. If it does not
  exist, \<^verbatim>\<open>os.MkdirAll(gd, 0755)\<close> makes it with its parents and
  \<^verbatim>\<open>git --git-dir gd init --bare\<close> initialises it; a failure of either is returned.
\<close>

theorem workspace_ensured:
  assumes valid: "repo \<noteq> []" "branch \<noteq> []" "format = ''tar'' \<or> format = ''tgz''"
      and gd: "gd = path_Join [cacheDir, cacheKey repo]"
      and initlog: "initlog = LogPrintln (''git --git-dir '' @ gd @ '' init --bare'')"
      and initcmd: "initcmd = [''git'', ''--git-dir'', gd, ''init'', ''--bare'']"
  shows "(case os_Stat env (trace w) gd of
            None \<Rightarrow>
              preflightAndInit env repo branch format cacheDir w
                = (Inr gd, w\<lparr>trace := trace w @ [Stat gd]\<rparr>)
          | Some err \<Rightarrow>
              if \<not> os_IsNotExist err then
                preflightAndInit env repo branch format cacheDir w
                  = (Inl err, w\<lparr>trace := trace w @ [Stat gd]\<rparr>)
              else
                (case os_MkdirAll env (trace w @ [Stat gd]) gd 493 of
                   Some err2 \<Rightarrow>
                     preflightAndInit env repo branch format cacheDir w
                       = (Inl err2, w\<lparr>trace := trace w @ [Stat gd, MkdirAll gd 493]\<rparr>)
                 | None \<Rightarrow>
                     (case cmd_Run env (trace w @ [Stat gd, MkdirAll gd 493, initlog]) initcmd of
                        Some err3 \<Rightarrow>
                          preflightAndInit env repo branch format cacheDir w
                            = (Inl err3,
                               w\<lparr>trace := trace w @ [Stat gd, MkdirAll gd 493, initlog, Exec initcmd]\<rparr>)
                      | None \<Rightarrow>
                          preflightAndInit env repo branch format cacheDir w
                            = (Inr gd,
                               w\<lparr>trace := trace w @ [Stat gd, MkdirAll gd 493, initlog, Exec initcmd]\<rparr>))))"
  using valid
  by (auto simp: preflightAndInit_def Let_def makeCommand_def cmd_run_def emit_def gd initlog initcmd
           split: option.splits)

subsection \<open>Resolving the head commit\<close>

lemma trimFront_spaceWidth: "spaceWidth pats (trimFront pats s) = 0"
proof (induction pats s rule: trimFront.induct)
  case (1 pats)
  then show ?case by (simp add: spaceWidth_def)
next
  case (2 pats c cs)
  then show ?case by (cases "spaceWidth pats (c # cs)") simp_all
qed

lemma trimFront_suffix: "suffix (trimFront pats s) s"
proof (induction pats s rule: trimFront.induct)
  case (1 pats)
  then show ?case by simp
next
  case (2 pats c cs)
  show ?case
  proof (cases "spaceWidth pats (c # cs)")
    case 0
    then show ?thesis by simp
  next
    case (Suc n)
    with 2 have "suffix (trimFront pats (drop n cs)) (drop n cs)" by simp
    moreover have "suffix (drop n cs) (c # cs)"
      by (meson suffix_ConsI suffix_drop)
    ultimately show ?thesis using Suc by (auto intro: suffix_order.trans)
  qed
qed

lemma spaceWidth_zero_iff:
  assumes "[] \<notin> set pats"
  shows "spaceWidth pats s = 0 \<longleftrightarrow>
         (s = [] \<or> (\<not> asciiSpace (hd s) \<and> (\<forall>p \<in> set pats. \<not> prefix p s)))"
proof (cases s)
  case Nil
  then show ?thesis by (simp add: spaceWidth_def)
next
  case (Cons c cs)
  have pre: "\<And>p. (take (length p) s = p) = prefix p s"
    by (metis append_take_drop_id prefix_def append_eq_conv_conj)
  have "filter (\<lambda>p. take (length p) s = p) pats = [] \<longleftrightarrow> (\<forall>p \<in> set pats. \<not> prefix p s)"
    by (simp add: filter_empty_conv pre)
  moreover have "\<And>p ps. filter (\<lambda>p. take (length p) s = p) pats = p # ps \<Longrightarrow> length p \<noteq> 0"
  proof -
    fix p ps assume "filter (\<lambda>p. take (length p) s = p) pats = p # ps"
    then have "p \<in> set (filter (\<lambda>p. take (length p) s = p) pats)" by simp
    then have "p \<in> set pats" by simp
    with assms show "length p \<noteq> 0" by auto
  qed
  ultimately show ?thesis using Cons
    by (auto simp: spaceWidth_def split: list.splits)
qed

lemma spaceWidth_prefix:
  assumes "[] \<notin> set pats" "spaceWidth pats s = 0" "prefix r s"
  shows "spaceWidth pats r = 0"
proof (cases r)
  case Nil
  then show ?thesis by (simp add: spaceWidth_def)
next
  case (Cons c cs)
  with assms(3) have s: "s \<noteq> []" "hd s = hd r" by (auto simp: prefix_def)
  with assms(1,2) have "\<not> asciiSpace (hd r)" "\<forall>p \<in> set pats. \<not> prefix p s"
    by (simp_all add: spaceWidth_zero_iff)
  moreover have "\<And>p. prefix p r \<Longrightarrow> prefix p s" using assms(3) by (rule prefix_order.trans[rotated])
  ultimately show ?thesis using assms(1) by (auto simp: spaceWidth_zero_iff)
qed

lemma unicodeSpaces_nonempty: "[] \<notin> set unicodeSpaces" "[] \<notin> set (map rev unicodeSpaces)"
  by (simp_all add: unicodeSpaces_def)

lemma strings_TrimSpace_trimmed:
  "spaceWidth unicodeSpaces (strings_TrimSpace s) = 0 \<and>
   spaceWidth (map rev unicodeSpaces) (rev (strings_TrimSpace s)) = 0"
proof -
  let ?t = "trimFront unicodeSpaces s"
  have "suffix (trimFront (map rev unicodeSpaces) (rev ?t)) (rev ?t)" by (rule trimFront_suffix)
  then have "prefix (strings_TrimSpace s) ?t"
    by (simp add: strings_TrimSpace_def suffix_to_prefix)
  from spaceWidth_prefix[OF unicodeSpaces_nonempty(1) trimFront_spaceWidth this]
  show ?thesis by (simp add: strings_TrimSpace_def trimFront_spaceWidth)
qed

text \<open>
  C5. \<^verbatim>\<open>getHeadCommit\<close> always starts with the fetch subprocess: the first two
  events it adds are the fetch command's log line and its execution. When the fetch
  fails its error is returned and \<^verbatim>\<open>rev-parse\<close> is not run. When it succeeds
  \<^verbatim>\<open>git rev-parse branch\<close> runs; its failure is returned, and otherwise its output
  with the white space at both ends removed: the result neither starts nor ends with a
  white-space rune.
\<close>

theorem head_resolution:
  assumes fetchlog: "fetchlog = LogPrintln (''git --git-dir '' @ gd @ '' fetch '' @ repo @ '' +'' @ branch @ '':'' @ branch)"
      and fetchcmd: "fetchcmd = [''git'', ''--git-dir'', gd, ''fetch'', repo, ''+'' @ branch @ '':'' @ branch]"
      and revlog: "revlog = LogPrintln (''git --git-dir '' @ gd @ '' rev-parse '' @ branch)"
      and revcmd: "revcmd = [''git'', ''--git-dir'', gd, ''rev-parse'', branch]"
  shows "(case cmd_Run env (trace w @ [fetchlog]) fetchcmd of
            Some err \<Rightarrow>
              getHeadCommit env gd repo branch w
                = (Inl err, w\<lparr>trace := trace w @ [fetchlog, Exec fetchcmd]\<rparr>)
          | None \<Rightarrow>
              (case cmd_Output env (trace w @ [fetchlog, Exec fetchcmd, revlog]) revcmd of
                 (commitHex, Some err) \<Rightarrow>
                   getHeadCommit env gd repo branch w
                     = (Inl err, w\<lparr>trace := trace w @ [fetchlog, Exec fetchcmd, revlog, Exec revcmd]\<rparr>)
               | (commitHex, None) \<Rightarrow>
                   getHeadCommit env gd repo branch w
                     = (Inr (strings_TrimSpace commitHex),
                        w\<lparr>trace := trace w @ [fetchlog, Exec fetchcmd, revlog, Exec revcmd]\<rparr>) \<and>
                   spaceWidth unicodeSpaces (strings_TrimSpace commitHex) = 0 \<and>
                   spaceWidth (map rev unicodeSpaces) (rev (strings_TrimSpace commitHex)) = 0)) \<and>
         take 2 (drop (length (trace w)) (trace (snd (getHeadCommit env gd repo branch w))))
           = [fetchlog, Exec fetchcmd]"
  by (auto simp: getHeadCommit_def fetchUpstream_def makeCommand_def cmd_run_def cmd_output_def
                 emit_def fetchlog fetchcmd revlog revcmd strings_TrimSpace_trimmed
           split: option.splits prod.splits)


subsection \<open>The archive stream\<close>

text \<open>
  C6. In the loop of \<^verbatim>\<open>sendDownstream\<close>, once the header of an entry is written and
  \<^verbatim>\<open>io.CopyN\<close> has copied \<open>written\<close> bytes: if that is fewer than \<^verbatim>\<open>header.Size\<close>
  the loop stops and returns an error, whatever the rest of the stream and the exit
  status would be; the loop goes on to the next entry after a copy of exactly
  \<^verbatim>\<open>header.Size\<close> bytes; and on a plain writer the bytes added to the target are the
  first \<open>written\<close> bytes of the entry's data.
\<close>

theorem short_copy_is_fatal:
  assumes hdr: "tar_WriteHeader env (hdr\<lparr>ModTime := time_Unix 0 0\<rparr>) tarOut out = (None, tarOut1, out1)"
      and cp: "io_CopyN env dat rerr (Size hdr) tarOut1 out1 = ((written, err), tarOut2, out2)"
  shows "(written < Size hdr \<longrightarrow>
            err \<noteq> None \<and>
            copyEntries env (NextHdr hdr dat rerr rest) wait tarOut out = (err, tarOut2, out2)) \<and>
         (err = None \<and> written = Size hdr \<longrightarrow>
            copyEntries env (NextHdr hdr dat rerr rest) wait tarOut out
              = copyEntries env rest wait tarOut2 out2) \<and>
         (tw_out tarOut = Plain t \<longrightarrow>
            sink_bytes t out2 = sink_bytes t out1 @ take (nat written) dat \<and>
            length (take (nat written) dat) = nat written \<and> 0 \<le> written)"
proof -
  from io_CopyN_count[OF cp] have short: "written < Size hdr \<longrightarrow> err \<noteq> None" by auto
  have a: "written < Size hdr \<longrightarrow>
            err \<noteq> None \<and>
            copyEntries env (NextHdr hdr dat rerr rest) wait tarOut out = (err, tarOut2, out2)"
    using short hdr cp by (auto simp: Let_def)
  have b: "err = None \<and> written = Size hdr \<longrightarrow>
            copyEntries env (NextHdr hdr dat rerr rest) wait tarOut out
              = copyEntries env rest wait tarOut2 out2"
    using hdr cp by (auto simp: Let_def)
  have c: "tw_out tarOut = Plain t \<longrightarrow>
            sink_bytes t out2 = sink_bytes t out1 @ take (nat written) dat \<and>
            length (take (nat written) dat) = nat written \<and> 0 \<le> written"
  proof
    assume p: "tw_out tarOut = Plain t"
    with tar_WriteHeader_step[OF hdr] have "tw_out tarOut1 = Plain t" by simp
    from io_CopyN_plain[OF this cp]
    show "sink_bytes t out2 = sink_bytes t out1 @ take (nat written) dat \<and>
            length (take (nat written) dat) = nat written \<and> 0 \<le> written"
      by (simp add: min_def)
  qed
  from a b c show ?thesis by blast
qed

lemma copyEntries_epochStream:
  "copyEntries env (epochStream s) wait tw out = copyEntries env s wait tw out"
  by (induction s arbitrary: tw out) (simp_all add: Let_def split: prod.splits option.splits)

lemma sendDownstream_by_proc:
  "sendDownstream env gd commit tree wr w =
     (let p = archiveProc env gd commit tree w;
          w1 = emit (LogPrintln (''git'' @ '' '' @ strings_Join (tl (archiveArgv gd commit tree)) '' '')) w
      in case pipe_err p of
           Some err \<Rightarrow> (Some err, w1)
         | None \<Rightarrow>
             (let w2 = emit (Exec (archiveArgv gd commit tree)) w1
              in case start_err p of
                   Some err \<Rightarrow> (Some err, w2)
                 | None \<Rightarrow>
                     (case copyEntries env (tar_stream p) (wait_err p) (tar_NewWriter wr) (outs w) of
                        (r, tarOut, out1) \<Rightarrow>
                          (r, w2\<lparr>outs := snd (snd (tar_Close env tarOut out1))\<rparr>))))"
  by (simp add: sendDownstream_def sendDownstreamC_def archiveProc_def archiveArgv_def
                makeCommand_def emit_def Let_def split: option.splits prod.splits)

text \<open>
  C1. Two calls of \<^verbatim>\<open>sendDownstream\<close> for the same directory, commit and tree, whose
  \<^verbatim>\<open>git archive\<close> subprocesses behave alike except for the modification times in the
  headers they emit, and that start from the same outputs, return the same result and
  leave the same outputs, byte for byte: the loop sets every \<^verbatim>\<open>ModTime\<close> to
  \<^verbatim>\<open>time.Unix(0, 0)\<close> before the header is written again.
\<close>

theorem archive_output_deterministic:
  assumes same_stream:
        "epochStream (tar_stream (archiveProc env gd commit tree w1))
           = epochStream (tar_stream (archiveProc env gd commit tree w2))"
      and same_status:
        "pipe_err (archiveProc env gd commit tree w1) = pipe_err (archiveProc env gd commit tree w2)"
        "start_err (archiveProc env gd commit tree w1) = start_err (archiveProc env gd commit tree w2)"
        "wait_err (archiveProc env gd commit tree w1) = wait_err (archiveProc env gd commit tree w2)"
      and same_sink: "outs w1 = outs w2"
  shows "fst (sendDownstream env gd commit tree wr w1) = fst (sendDownstream env gd commit tree wr w2) \<and>
         outs (snd (sendDownstream env gd commit tree wr w1))
           = outs (snd (sendDownstream env gd commit tree wr w2))"
proof -
  let ?p1 = "archiveProc env gd commit tree w1" and ?p2 = "archiveProc env gd commit tree w2"
  have "copyEntries env (tar_stream ?p1) (wait_err ?p1) (tar_NewWriter wr) (outs w1)
      = copyEntries env (epochStream (tar_stream ?p1)) (wait_err ?p1) (tar_NewWriter wr) (outs w1)"
    by (simp add: copyEntries_epochStream)
  also have "\<dots> = copyEntries env (epochStream (tar_stream ?p2)) (wait_err ?p2) (tar_NewWriter wr) (outs w2)"
    using same_stream same_status same_sink by simp
  also have "\<dots> = copyEntries env (tar_stream ?p2) (wait_err ?p2) (tar_NewWriter wr) (outs w2)"
    by (simp add: copyEntries_epochStream)
  finally have loop: "copyEntries env (tar_stream ?p1) (wait_err ?p1) (tar_NewWriter wr) (outs w1)
      = copyEntries env (tar_stream ?p2) (wait_err ?p2) (tar_NewWriter wr) (outs w2)" .
  show ?thesis
    unfolding sendDownstream_by_proc
    using loop same_status same_sink
    by (auto simp: Let_def emit_def split: option.splits prod.splits)
qed

subsection \<open>The retry protocol and the output\<close>

text \<open>
  C2. Lines 184 to 200 of \<^verbatim>\<open>FetchLatest\<close>. With \<open>(r1, w1)\<close> the outcome of the first
  \<^verbatim>\<open>sendDownstream\<close>, \<open>(rf, w2)\<close> that of a \<^verbatim>\<open>fetchUpstream\<close> after it and
  \<open>(r2, w3)\<close> that of a \<^verbatim>\<open>sendDownstream\<close> after that: a first success is the
  result, with no fetch run; a first failure with \<^verbatim>\<open>haveFetched\<close> is the result,
  with no fetch run; otherwise exactly one fetch runs, its failure is the result, and
  after its success the second attempt's outcome is the result and the final world is
  the one that attempt leaves. Never more than one fetch and two archive subprocesses.
  \<^verbatim>\<open>haveFetched\<close> is true exactly when no commit was supplied, and then resolving
  the commit has run one fetch; with a commit supplied, resolving it does nothing.
\<close>

theorem retry_protocol:
  assumes first: "sendDownstream env gd commit tree wr w = (r1, w1)"
      and fetch: "fetchUpstream env gd repo branch w1 = (rf, w2)"
      and again: "sendDownstream env gd commit tree wr w2 = (r2, w3)"
      and run: "archiveWithRetry env gd repo branch commit tree haveFetched wr w = (r, w')"
  shows "(r1 = None \<longrightarrow>
            r = None \<and> w' = w1 \<and> runs ''fetch'' (trace w') = runs ''fetch'' (trace w)) \<and>
         (r1 \<noteq> None \<and> haveFetched \<longrightarrow>
            r = r1 \<and> w' = w1 \<and> runs ''fetch'' (trace w') = runs ''fetch'' (trace w)) \<and>
         (r1 \<noteq> None \<and> \<not> haveFetched \<and> rf \<noteq> None \<longrightarrow>
            r = rf \<and> w' = w2 \<and> runs ''fetch'' (trace w') = runs ''fetch'' (trace w) + 1) \<and>
         (r1 \<noteq> None \<and> \<not> haveFetched \<and> rf = None \<longrightarrow>
            r = r2 \<and> w' = w3 \<and> runs ''fetch'' (trace w') = runs ''fetch'' (trace w) + 1) \<and>
         runs ''fetch'' (trace w') \<le> runs ''fetch'' (trace w) + 1 \<and>
         runs ''archive'' (trace w') \<le> runs ''archive'' (trace w) + 2 \<and>
         (\<forall>c hf w0 wc. resolveCommit env gd repo branch c w0 = (Inr (commit, hf), wc) \<longrightarrow>
            hf = (c = []) \<and> (hf \<longrightarrow> runs ''fetch'' (trace wc) = runs ''fetch'' (trace w0) + 1) \<and>
            (\<not> hf \<longrightarrow> wc = w0))"
proof -
  note e1 = sendDownstream_effect[OF first]
  note ef = fetchUpstream_effect[OF fetch]
  note e2 = sendDownstream_effect[OF again]
  have res: "\<forall>c hf w0 wc. resolveCommit env gd repo branch c w0 = (Inr (commit, hf), wc) \<longrightarrow>
            hf = (c = []) \<and> (hf \<longrightarrow> runs ''fetch'' (trace wc) = runs ''fetch'' (trace w0) + 1) \<and>
            (\<not> hf \<longrightarrow> wc = w0)"
    by (auto simp: resolveCommit_def getHeadCommit_def fetchUpstream_eq makeCommand_def
                   cmd_output_def emit_def runs_append runs_Cons runs_Nil subcommand_simps
             split: if_splits prod.splits option.splits sum.splits)
  have main: "(r1 = None \<longrightarrow>
            r = None \<and> w' = w1 \<and> runs ''fetch'' (trace w') = runs ''fetch'' (trace w)) \<and>
         (r1 \<noteq> None \<and> haveFetched \<longrightarrow>
            r = r1 \<and> w' = w1 \<and> runs ''fetch'' (trace w') = runs ''fetch'' (trace w)) \<and>
         (r1 \<noteq> None \<and> \<not> haveFetched \<and> rf \<noteq> None \<longrightarrow>
            r = rf \<and> w' = w2 \<and> runs ''fetch'' (trace w') = runs ''fetch'' (trace w) + 1) \<and>
         (r1 \<noteq> None \<and> \<not> haveFetched \<and> rf = None \<longrightarrow>
            r = r2 \<and> w' = w3 \<and> runs ''fetch'' (trace w') = runs ''fetch'' (trace w) + 1) \<and>
         runs ''fetch'' (trace w') \<le> runs ''fetch'' (trace w) + 1 \<and>
         runs ''archive'' (trace w') \<le> runs ''archive'' (trace w) + 2"
  proof (cases r1)
    case None
    with run first e1 show ?thesis by (auto simp: archiveWithRetry_def)
  next
    case (Some err)
    show ?thesis
    proof (cases haveFetched)
      case True
      with Some run first e1 show ?thesis by (auto simp: archiveWithRetry_def)
    next
      case False
      show ?thesis
      proof (cases rf)
        case None
        with Some False run first fetch again have "r = r2" "w' = w3"
          by (auto simp: archiveWithRetry_def)
        with Some False None e1 ef e2 show ?thesis by auto
      next
        case (Some ferr)
        with \<open>r1 = Some err\<close> False run first fetch have "r = rf" "w' = w2"
          by (auto simp: archiveWithRetry_def)
        with Some \<open>r1 = Some err\<close> False e1 ef show ?thesis by auto
      qed
    qed
  qed
  from main res show ?thesis by blast
qed











section \<open>The program at work\<close>

text \<open>
  The theorems above, used on the small environment: a fresh cache, one upstream commit
  with one file of two bytes.
\<close>

lemmas eval_defs = demo_defs run_defs io_defs trace_defs Let_def

text \<open>The key of the identifier \<^verbatim>\<open>abc\<close> is the digest FIPS 180-4 gives for that message.\<close>

lemma cacheKey_abc:
  "cacheKey ''abc'' = ''ba7816bf8f01cfea414140de5dae2223b00361a396177a9cb410ff61f20015ad''"
  by code_simp


theorem workspace_depends_on_cacheDir_and_repo_witness:
  "preflightAndInit (demo_env (Time 5 0)) ''repo'' ''main'' ''tar'' ''/cache'' world0
     = (Inr (path_Join [''/cache'', cacheKey ''repo'']),
        snd (preflightAndInit (demo_env (Time 5 0)) ''repo'' ''main'' ''tar'' ''/cache'' world0)) \<and>
   preflightAndInit (demo_env (Time 9 0)) ''repo'' ''dev'' ''tgz'' ''/cache''
       (snd (preflightAndInit (demo_env (Time 5 0)) ''repo'' ''main'' ''tar'' ''/cache'' world0))
     = (Inr (path_Join [''/cache'', cacheKey ''repo'']),
        snd (preflightAndInit (demo_env (Time 9 0)) ''repo'' ''dev'' ''tgz'' ''/cache''
          (snd (preflightAndInit (demo_env (Time 5 0)) ''repo'' ''main'' ''tar'' ''/cache'' world0))))"
proof -
  let ?w1 = "snd (preflightAndInit (demo_env (Time 5 0)) ''repo'' ''main'' ''tar'' ''/cache'' world0)"
  have h1: "preflightAndInit (demo_env (Time 5 0)) ''repo'' ''main'' ''tar'' ''/cache'' world0
     = (Inr (path_Join [''/cache'', cacheKey ''repo'']), ?w1)"
    by (simp add: eval_defs)
  have h2: "preflightAndInit (demo_env (Time 9 0)) ''repo'' ''dev'' ''tgz'' ''/cache'' ?w1
     = (Inr (path_Join [''/cache'', cacheKey ''repo'']),
        snd (preflightAndInit (demo_env (Time 9 0)) ''repo'' ''dev'' ''tgz'' ''/cache'' ?w1))"
    by (simp add: eval_defs)
  from workspace_depends_on_cacheDir_and_repo [OF h1 h2] h1 h2 show ?thesis by simp
qed

theorem workspace_ensured_witness:
  "preflightAndInit (demo_env (Time 5 0)) ''repo'' ''main'' ''tar'' ''/cache'' world0
     = (Inr (path_Join [''/cache'', cacheKey ''repo'']),
        world0\<lparr>trace :=
          [Stat (path_Join [''/cache'', cacheKey ''repo'']),
           MkdirAll (path_Join [''/cache'', cacheKey ''repo'']) 493,
           LogPrintln (''git --git-dir '' @ path_Join [''/cache'', cacheKey ''repo''] @ '' init --bare''),
           Exec [''git'', ''--git-dir'', path_Join [''/cache'', cacheKey ''repo''], ''init'', ''--bare'']]\<rparr>) \<and>
   preflightAndInit (demo_env (Time 5 0)) ''repo'' ''main'' ''tar'' ''/cache''
       (world0\<lparr>trace := [MkdirAll (path_Join [''/cache'', cacheKey ''repo'']) 493]\<rparr>)
     = (Inr (path_Join [''/cache'', cacheKey ''repo'']),
        world0\<lparr>trace := [MkdirAll (path_Join [''/cache'', cacheKey ''repo'']) 493,
                          Stat (path_Join [''/cache'', cacheKey ''repo''])]\<rparr>)"
proof -
  let ?gd = "path_Join [''/cache'', cacheKey ''repo'']"
  have v: "''repo'' \<noteq> []" "''main'' \<noteq> []" "''tar'' = ''tar'' \<or> ''tar'' = ''tgz''" by simp_all
  note th = workspace_ensured [where cacheDir="''/cache''" and env="demo_env (Time 5 0)", OF v refl refl refl]
  from th [where w=world0] th [where w="world0\<lparr>trace := [MkdirAll ?gd 493]\<rparr>"]
  show ?thesis by (simp add: demo_defs os_IsNotExist_def)
qed

theorem head_resolution_witness:
  "getHeadCommit (demo_env (Time 5 0)) ''d'' ''r'' ''b'' world0
     = (Inr ''c0ffee'',
        world0\<lparr>trace :=
          [LogPrintln ''git --git-dir d fetch r +b:b'',
           Exec [''git'', ''--git-dir'', ''d'', ''fetch'', ''r'', ''+b:b''],
           LogPrintln ''git --git-dir d rev-parse b'',
           Exec [''git'', ''--git-dir'', ''d'', ''rev-parse'', ''b'']]\<rparr>)"
proof -
  have t: "strings_TrimSpace (''c0ffee'' @ [CHR 0x0A]) = ''c0ffee''"
    by (simp add: strings_TrimSpace_def spaceWidth_def asciiSpace_def unicodeSpaces_def)
  from head_resolution [where env="demo_env (Time 5 0)" and w=world0 and gd="''d''" and repo="''r''"
      and branch="''b''", OF refl refl refl refl]
  show ?thesis by (simp add: demo_defs t [simplified])
qed


theorem retry_protocol_witness:
  "fst (sendDownstream (demo_env (Time 5 0)) ''d'' ''c'' [] (Plain OurOutput) world0)
     = Some (ExitError 128) \<and>
   fst (archiveWithRetry (demo_env (Time 5 0)) ''d'' ''r'' ''b'' ''c'' [] False (Plain OurOutput) world0)
     = None \<and>
   runs ''fetch'' (trace (snd (archiveWithRetry (demo_env (Time 5 0)) ''d'' ''r'' ''b'' ''c'' []
                               False (Plain OurOutput) world0))) = 1 \<and>
   runs ''archive'' (trace (snd (archiveWithRetry (demo_env (Time 5 0)) ''d'' ''r'' ''b'' ''c'' []
                               False (Plain OurOutput) world0))) = 2 \<and>
   archiveWithRetry (demo_env (Time 5 0)) ''d'' ''r'' ''b'' ''c'' [] True (Plain OurOutput) world0
     = sendDownstream (demo_env (Time 5 0)) ''d'' ''c'' [] (Plain OurOutput) world0"
proof -
  let ?E = "demo_env (Time 5 0)"
  define w1 where "w1 = snd (sendDownstream ?E ''d'' ''c'' [] (Plain OurOutput) world0)"
  define w2 where "w2 = snd (fetchUpstream ?E ''d'' ''r'' ''b'' w1)"
  define w3 where "w3 = snd (sendDownstream ?E ''d'' ''c'' [] (Plain OurOutput) w2)"
  have first: "sendDownstream ?E ''d'' ''c'' [] (Plain OurOutput) world0 = (Some (ExitError 128), w1)"
    by (simp add: w1_def eval_defs)
  have fetch: "fetchUpstream ?E ''d'' ''r'' ''b'' w1 = (None, w2)"
    by (simp add: w2_def eval_defs)
  have again: "sendDownstream ?E ''d'' ''c'' [] (Plain OurOutput) w2 = (None, w3)"
    by (simp add: w3_def w2_def w1_def eval_defs)
  have run: "archiveWithRetry ?E ''d'' ''r'' ''b'' ''c'' [] False (Plain OurOutput) world0
      = (fst (archiveWithRetry ?E ''d'' ''r'' ''b'' ''c'' [] False (Plain OurOutput) world0),
         snd (archiveWithRetry ?E ''d'' ''r'' ''b'' ''c'' [] False (Plain OurOutput) world0))"
    by simp
  have runT: "archiveWithRetry ?E ''d'' ''r'' ''b'' ''c'' [] True (Plain OurOutput) world0
      = (fst (archiveWithRetry ?E ''d'' ''r'' ''b'' ''c'' [] True (Plain OurOutput) world0),
         snd (archiveWithRetry ?E ''d'' ''r'' ''b'' ''c'' [] True (Plain OurOutput) world0))"
    by simp
  have a2: "runs ''archive'' (trace w3) = 2"
    by (simp add: w3_def w2_def w1_def eval_defs)
  have f0: "runs ''fetch'' (trace world0) = 0" by (simp add: world0_def runs_def)
  let ?R = "archiveWithRetry ?E ''d'' ''r'' ''b'' ''c'' [] False (Plain OurOutput) world0"
  note R = retry_protocol [OF first fetch again run, simplified]
  from R have F: "fst ?R = None" "snd ?R = w3"
    "runs ''fetch'' (trace (snd ?R)) = Suc (runs ''fetch'' (trace world0))"
    by blast+
  from F(2) a2 have A: "runs ''archive'' (trace (snd ?R)) = 2" by simp
  from retry_protocol [OF first fetch again runT] first
  have T: "archiveWithRetry ?E ''d'' ''r'' ''b'' ''c'' [] True (Plain OurOutput) world0
      = sendDownstream ?E ''d'' ''c'' [] (Plain OurOutput) world0"
    by (simp add: prod_eq_iff)
  from first have S: "fst (sendDownstream ?E ''d'' ''c'' [] (Plain OurOutput) world0) = Some (ExitError 128)"
    by simp
  show ?thesis using F(1) F(3) A T S f0 by simp
qed

theorem short_copy_is_fatal_witness:
  "fst (copyEntries (demo_env (Time 7 0))
          (NextHdr (demo_hdr (Time 7 0)) ''h'' ErrUnexpectedEOF (NextErr EOF)) None
          (tar_NewWriter (Plain OurOutput)) (outs world0)) = Some ErrUnexpectedEOF \<and>
   copyEntries (demo_env (Time 7 0))
          (NextHdr (demo_hdr (Time 7 0)) ''hi'' EOF (NextErr EOF)) None
          (tar_NewWriter (Plain OurOutput)) (outs world0)
     = copyEntries (demo_env (Time 7 0)) (NextErr EOF) None
          \<lparr>tw_out = Plain OurOutput, tw_nb = 0, tw_pad = 510, tw_err = None\<rparr>
          ((outs world0)\<lparr>ourOutput := \<lparr>sk_data = ''README@epoch;hi'', sk_room = None\<rparr>\<rparr>)"
proof -
  let ?E = "demo_env (Time 7 0)"
  let ?tw1 = "\<lparr>tw_out = Plain OurOutput, tw_nb = 2, tw_pad = 510, tw_err = None\<rparr>"
  let ?out1 = "(outs world0)\<lparr>ourOutput := \<lparr>sk_data = ''README@epoch;'', sk_room = None\<rparr>\<rparr>"
  have hdr: "tar_WriteHeader ?E ((demo_hdr (Time 7 0))\<lparr>ModTime := time_Unix 0 0\<rparr>)
               (tar_NewWriter (Plain OurOutput)) (outs world0) = (None, ?tw1, ?out1)"
    by (simp add: eval_defs)
  have short: "io_CopyN ?E ''h'' ErrUnexpectedEOF (Size (demo_hdr (Time 7 0))) ?tw1 ?out1
      = ((1, Some ErrUnexpectedEOF),
         \<lparr>tw_out = Plain OurOutput, tw_nb = 1, tw_pad = 510, tw_err = None\<rparr>,
         (outs world0)\<lparr>ourOutput := \<lparr>sk_data = ''README@epoch;h'', sk_room = None\<rparr>\<rparr>)"
    by (simp add: eval_defs)
  have full: "io_CopyN ?E ''hi'' EOF (Size (demo_hdr (Time 7 0))) ?tw1 ?out1
      = ((2, None),
         \<lparr>tw_out = Plain OurOutput, tw_nb = 0, tw_pad = 510, tw_err = None\<rparr>,
         (outs world0)\<lparr>ourOutput := \<lparr>sk_data = ''README@epoch;hi'', sk_room = None\<rparr>\<rparr>)"
    by (simp add: eval_defs)
  have sz: "Size (demo_hdr (Time 7 0)) = 2" by (simp add: demo_hdr_def)
  from short_copy_is_fatal [OF hdr short, of "NextErr EOF" None OurOutput]
       short_copy_is_fatal [OF hdr full, of "NextErr EOF" None OurOutput] sz
  show ?thesis by simp
qed

theorem archive_output_deterministic_witness:
  "tar_stream (archiveProc clock_env ''d'' ''c'' [] world0)
     \<noteq> tar_stream (archiveProc clock_env ''d'' ''c'' [] (world0\<lparr>trace := [Stat ''d'']\<rparr>)) \<and>
   fst (sendDownstream clock_env ''d'' ''c'' [] (Plain OurOutput) world0)
     = fst (sendDownstream clock_env ''d'' ''c'' [] (Plain OurOutput) (world0\<lparr>trace := [Stat ''d'']\<rparr>)) \<and>
   outs (snd (sendDownstream clock_env ''d'' ''c'' [] (Plain OurOutput) world0))
     = outs (snd (sendDownstream clock_env ''d'' ''c'' [] (Plain OurOutput)
                   (world0\<lparr>trace := [Stat ''d'']\<rparr>))) \<and>
   sk_data (ourOutput (outs (snd (sendDownstream clock_env ''d'' ''c'' [] (Plain OurOutput) world0))))
     = ''README@epoch;hi'' @ replicate 510 (CHR 0x00) @ tar_trailer"
proof -
  let ?w2 = "world0\<lparr>trace := [Stat ''d'']\<rparr>"
  have differ: "tar_stream (archiveProc clock_env ''d'' ''c'' [] world0)
     \<noteq> tar_stream (archiveProc clock_env ''d'' ''c'' [] ?w2)"
    by (simp add: eval_defs)
  have s: "epochStream (tar_stream (archiveProc clock_env ''d'' ''c'' [] world0))
         = epochStream (tar_stream (archiveProc clock_env ''d'' ''c'' [] ?w2))"
    by (simp add: eval_defs)
  have p: "pipe_err (archiveProc clock_env ''d'' ''c'' [] world0)
         = pipe_err (archiveProc clock_env ''d'' ''c'' [] ?w2)"
    by (simp add: eval_defs)
  have st: "start_err (archiveProc clock_env ''d'' ''c'' [] world0)
         = start_err (archiveProc clock_env ''d'' ''c'' [] ?w2)"
    by (simp add: eval_defs)
  have wt: "wait_err (archiveProc clock_env ''d'' ''c'' [] world0)
         = wait_err (archiveProc clock_env ''d'' ''c'' [] ?w2)"
    by (simp add: eval_defs)
  have o: "outs world0 = outs ?w2" by simp
  have d: "sk_data (ourOutput (outs (snd (sendDownstream clock_env ''d'' ''c'' [] (Plain OurOutput) world0))))
     = ''README@epoch;hi'' @ replicate 510 (CHR 0x00) @ tar_trailer"
    by (simp add: eval_defs)
  from archive_output_deterministic [OF s p st wt o, of "Plain OurOutput"] differ d
  show ?thesis by simp
qed








end
